theory Spec2Isabelle
  imports Main
begin

section \<open>JavaScript values\<close>

text \<open>
  Strings are \<open>string\<close>; a value that may be \<open>undefined\<close> is an option.
  JavaScript's \<open>a || b\<close> picks \<open>b\<close> when \<open>a\<close> is falsy: for a string that is
  \<open>undefined\<close> or the empty string, for a number \<open>undefined\<close> or \<open>0\<close>.
\<close>

definition truthy :: "string option \<Rightarrow> bool" where
  "truthy v = (case v of None \<Rightarrow> False | Some x \<Rightarrow> x \<noteq> [])"

definition or_str :: "string option \<Rightarrow> string \<Rightarrow> string" where
  "or_str v d = (case v of None \<Rightarrow> d | Some x \<Rightarrow> if x = [] then d else x)"

definition or_num :: "int option \<Rightarrow> int \<Rightarrow> int" where
  "or_num v d = (case v of None \<Rightarrow> d | Some x \<Rightarrow> if x = 0 then d else x)"

text \<open>\<open>Array.prototype.join\<close> with a separator.\<close>

fun join :: "string \<Rightarrow> string list \<Rightarrow> string" where
  "join sep [] = []"
| "join sep [x] = x"
| "join sep (x # y # ys) = x @ sep @ join sep (y # ys)"

text \<open>
  Loosely typed values (tool arguments, field values): JSON, with \<open>undefined\<close> as the
  \<open>None\<close> of an option where a value may be missing. An object is the list of its
  entries in insertion order.
\<close>

datatype jv =
    JNull
  | JBool bool
  | JNum int
  | JStr string
  | JArr "jv list"
  | JObj "(string \<times> jv) list"

definition js_truthy :: "jv \<Rightarrow> bool" where
  "js_truthy v = (case v of JNull \<Rightarrow> False | JBool b \<Rightarrow> b | JNum n \<Rightarrow> n \<noteq> 0
                  | JStr x \<Rightarrow> x \<noteq> [] | JArr _ \<Rightarrow> True | JObj _ \<Rightarrow> True)"

section \<open>The authorization page (authorize-page.js)\<close>

text \<open>
  \<open>String.prototype.replace\<close> with a global one-character pattern and a
  replacement string without \<open>$\<close>: every occurrence of the character is replaced.
\<close>

definition replace_all :: "char \<Rightarrow> string \<Rightarrow> string \<Rightarrow> string" where
  "replace_all c rep str = concat (map (\<lambda>x. if x = c then rep else [x]) str)"

text \<open>\<open>escapeHtml\<close> (lines 269-277): the five replacements in the source's order.\<close>

definition escapeHtml :: "string \<Rightarrow> string" where
  "escapeHtml str =
     (if str = [] then []
      else replace_all (CHR 0x27) ''&#39;''
            (replace_all (CHR 0x22) ''&quot;''
              (replace_all (CHR ''>'') ''&gt;''
                (replace_all (CHR ''<'') ''&lt;''
                  (replace_all (CHR ''&'') ''&amp;'' str)))))"

text \<open>
  The fixed text of the template literal of \<open>generateAuthorizePage\<close> (lines 33-261),
  cut at its six interpolations.
\<close>

definition page_head :: string where
  "page_head = concat [
     ''<!DOCTYPE html>\<newline>'',
     ''<html lang=\"en\">\<newline>'',
     ''<head>\<newline>'',
     ''  <meta charset=\"UTF-8\">\<newline>'',
     ''  <meta name=\"viewport\" content=\"width=device-width, initial-scale=1.0\">\<newline>'',
     ''  <title>Authorize - Twenty CRM MCP Server</title>\<newline>'',
     ''  <style>\<newline>'',
     ''    * {\<newline>'',
     ''      box-sizing: border-box;\<newline>'',
     ''      margin: 0;\<newline>'',
     ''      padding: 0;\<newline>'',
     ''    }\<newline>'',
     ''    body {\<newline>'',
     ''      font-family: -apple-system, BlinkMacSystemFont, '' @ [CHR 0x27] @ ''Segoe UI'' @ [CHR 0x27] @ '', Roboto, Oxygen, Ubuntu, sans-serif;\<newline>'',
     ''      background: linear-gradient(135deg, #1a1a2e 0%, #16213e 100%);\<newline>'',
     ''      min-height: 100vh;\<newline>'',
     ''      display: flex;\<newline>'',
     ''      align-items: center;\<newline>'',
     ''      justify-content: center;\<newline>'',
     ''      padding: 20px;\<newline>'',
     ''    }\<newline>'',
     ''    .container {\<newline>'',
     ''      background: white;\<newline>'',
     ''      border-radius: 12px;\<newline>'',
     ''      box-shadow: 0 4px 24px rgba(0, 0, 0, 0.3);\<newline>'',
     ''      padding: 40px;\<newline>'',
     ''      max-width: 440px;\<newline>'',
     ''      width: 100%;\<newline>'',
     ''    }\<newline>'',
     ''    .logo {\<newline>'',
     ''      text-align: center;\<newline>'',
     ''      margin-bottom: 24px;\<newline>'',
     ''    }\<newline>'',
     ''    .logo h1 {\<newline>'',
     ''      color: #1a1a2e;\<newline>'',
     ''      font-size: 24px;\<newline>'',
     ''      font-weight: 600;\<newline>'',
     ''    }\<newline>'',
     ''    .logo span {\<newline>'',
     ''      color: #667eea;\<newline>'',
     ''    }\<newline>'',
     ''    .client-info {\<newline>'',
     ''      background: #f8f9fa;\<newline>'',
     ''      border-radius: 8px;\<newline>'',
     ''      padding: 16px;\<newline>'',
     ''      margin-bottom: 24px;\<newline>'',
     ''    }\<newline>'',
     ''    .client-info h2 {\<newline>'',
     ''      font-size: 14px;\<newline>'',
     ''      color: #666;\<newline>'',
     ''      font-weight: 500;\<newline>'',
     ''      margin-bottom: 8px;\<newline>'',
     ''    }\<newline>'',
     ''    .client-info .name {\<newline>'',
     ''      font-size: 18px;\<newline>'',
     ''      color: #1a1a2e;\<newline>'',
     ''      font-weight: 600;\<newline>'',
     ''    }\<newline>'',
     ''    .scopes {\<newline>'',
     ''      margin-bottom: 24px;\<newline>'',
     ''    }\<newline>'',
     ''    .scopes h3 {\<newline>'',
     ''      font-size: 14px;\<newline>'',
     ''      color: #666;\<newline>'',
     ''      font-weight: 500;\<newline>'',
     ''      margin-bottom: 12px;\<newline>'',
     ''    }\<newline>'',
     ''    .scopes ul {\<newline>'',
     ''      list-style: none;\<newline>'',
     ''    }\<newline>'',
     ''    .scopes li {\<newline>'',
     ''      background: #e8f4fd;\<newline>'',
     ''      color: #1a73e8;\<newline>'',
     ''      padding: 8px 12px;\<newline>'',
     ''      border-radius: 6px;\<newline>'',
     ''      font-size: 14px;\<newline>'',
     ''      margin-bottom: 6px;\<newline>'',
     ''      display: inline-block;\<newline>'',
     ''      margin-right: 6px;\<newline>'',
     ''    }\<newline>'',
     ''    .form-group {\<newline>'',
     ''      margin-bottom: 20px;\<newline>'',
     ''    }\<newline>'',
     ''    .form-group label {\<newline>'',
     ''      display: block;\<newline>'',
     ''      font-size: 14px;\<newline>'',
     ''      color: #333;\<newline>'',
     ''      font-weight: 500;\<newline>'',
     ''      margin-bottom: 8px;\<newline>'',
     ''    }\<newline>'',
     ''    .form-group input {\<newline>'',
     ''      width: 100%;\<newline>'',
     ''      padding: 12px 16px;\<newline>'',
     ''      border: 2px solid #e1e4e8;\<newline>'',
     ''      border-radius: 8px;\<newline>'',
     ''      font-size: 14px;\<newline>'',
     ''      transition: border-color 0.2s;\<newline>'',
     ''    }\<newline>'',
     ''    .form-group input:focus {\<newline>'',
     ''      outline: none;\<newline>'',
     ''      border-color: #667eea;\<newline>'',
     ''    }\<newline>'',
     ''    .form-group .hint {\<newline>'',
     ''      font-size: 12px;\<newline>'',
     ''      color: #666;\<newline>'',
     ''      margin-top: 6px;\<newline>'',
     ''    }\<newline>'',
     ''    .error {\<newline>'',
     ''      background: #fee2e2;\<newline>'',
     ''      color: #dc2626;\<newline>'',
     ''      padding: 12px 16px;\<newline>'',
     ''      border-radius: 8px;\<newline>'',
     ''      font-size: 14px;\<newline>'',
     ''      margin-bottom: 20px;\<newline>'',
     ''    }\<newline>'',
     ''    .buttons {\<newline>'',
     ''      display: flex;\<newline>'',
     ''      gap: 12px;\<newline>'',
     ''    }\<newline>'',
     ''    .btn {\<newline>'',
     ''      flex: 1;\<newline>'',
     ''      padding: 12px 20px;\<newline>'',
     ''      border-radius: 8px;\<newline>'',
     ''      font-size: 14px;\<newline>'',
     ''      font-weight: 600;\<newline>'',
     ''      cursor: pointer;\<newline>'',
     ''      transition: all 0.2s;\<newline>'',
     ''      border: none;\<newline>'',
     ''    }\<newline>'',
     ''    .btn-primary {\<newline>'',
     ''      background: linear-gradient(135deg, #667eea 0%, #764ba2 100%);\<newline>'',
     ''      color: white;\<newline>'',
     ''    }\<newline>'',
     ''    .btn-primary:hover {\<newline>'',
     ''      transform: translateY(-1px);\<newline>'',
     ''      box-shadow: 0 4px 12px rgba(102, 126, 234, 0.4);\<newline>'',
     ''    }\<newline>'',
     ''    .btn-secondary {\<newline>'',
     ''      background: #f1f3f4;\<newline>'',
     ''      color: #5f6368;\<newline>'',
     ''    }\<newline>'',
     ''    .btn-secondary:hover {\<newline>'',
     ''      background: #e8eaed;\<newline>'',
     ''    }\<newline>'',
     ''    .info {\<newline>'',
     ''      margin-top: 24px;\<newline>'',
     ''      padding-top: 20px;\<newline>'',
     ''      border-top: 1px solid #e1e4e8;\<newline>'',
     ''      font-size: 12px;\<newline>'',
     ''      color: #666;\<newline>'',
     ''      text-align: center;\<newline>'',
     ''    }\<newline>'',
     ''    .info a {\<newline>'',
     ''      color: #667eea;\<newline>'',
     ''      text-decoration: none;\<newline>'',
     ''    }\<newline>'',
     ''    .info a:hover {\<newline>'',
     ''      text-decoration: underline;\<newline>'',
     ''    }\<newline>'',
     ''  </style>\<newline>'',
     ''</head>\<newline>'',
     ''<body>\<newline>'',
     ''  <div class=\"container\">\<newline>'',
     ''    <div class=\"logo\">\<newline>'',
     ''      <h1>Twenty <span>CRM</span> MCP Server</h1>\<newline>'',
     ''    </div>\<newline>'',
     ''\<newline>'',
     ''    <div class=\"client-info\">\<newline>'',
     ''      <h2>Application requesting access</h2>\<newline>'',
     ''      <div class=\"name\">'']"

definition page_after_name :: string where
  "page_after_name = concat [
     ''</div>\<newline>'',
     ''    </div>\<newline>'',
     ''\<newline>'',
     ''    <div class=\"scopes\">\<newline>'',
     ''      <h3>Requested permissions</h3>\<newline>'',
     ''      <ul>'']"

definition page_after_scopes :: string where
  "page_after_scopes = concat [
     ''</ul>\<newline>'',
     ''    </div>\<newline>'',
     ''\<newline>'',
     ''    '']"

definition page_after_error :: string where
  "page_after_error = concat [
     ''\<newline>'',
     ''\<newline>'',
     ''    <form method=\"POST\" action=\"/authorize/submit\">\<newline>'',
     ''      <input type=\"hidden\" name=\"state\" value=\"'']"

definition page_after_state :: string where
  "page_after_state = concat [
     ''\">\<newline>'',
     ''      <input type=\"hidden\" name=\"redirect_uri\" value=\"'']"

definition page_after_redirect :: string where
  "page_after_redirect = concat [
     ''\">\<newline>'',
     ''      <input type=\"hidden\" name=\"code_challenge\" value=\"'']"

definition page_tail :: string where
  "page_tail = concat [
     ''\">\<newline>'',
     ''\<newline>'',
     ''      <div class=\"form-group\">\<newline>'',
     ''        <label for=\"api_key\">Your Twenty CRM API Key</label>\<newline>'',
     ''        <input\<newline>'',
     ''          type=\"password\"\<newline>'',
     ''          id=\"api_key\"\<newline>'',
     ''          name=\"api_key\"\<newline>'',
     ''          placeholder=\"Enter your Twenty CRM API key\"\<newline>'',
     ''          required\<newline>'',
     ''          autocomplete=\"off\"\<newline>'',
     ''        >\<newline>'',
     ''        <div class=\"hint\">\<newline>'',
     ''          Find your API key in Twenty CRM: Settings &rarr; API &amp; Webhooks\<newline>'',
     ''        </div>\<newline>'',
     ''      </div>\<newline>'',
     ''\<newline>'',
     ''      <div class=\"buttons\">\<newline>'',
     ''        <button type=\"button\" class=\"btn btn-secondary\" onclick=\"handleDeny()\">Deny</button>\<newline>'',
     ''        <button type=\"submit\" class=\"btn btn-primary\">Authorize</button>\<newline>'',
     ''      </div>\<newline>'',
     ''    </form>\<newline>'',
     ''\<newline>'',
     ''    <div class=\"info\">\<newline>'',
     ''      Your API key is stored securely and used only to access your Twenty CRM data.\<newline>'',
     ''      <br>\<newline>'',
     ''      <a href=\"https://github.com/Limely/twenty-crm-mcp-server\" target=\"_blank\">Learn more</a>\<newline>'',
     ''    </div>\<newline>'',
     ''  </div>\<newline>'',
     ''\<newline>'',
     ''  <script>\<newline>'',
     ''    function handleDeny() {\<newline>'',
     ''      const redirectUri = document.querySelector('' @ [CHR 0x27] @ ''input[name=\"redirect_uri\"]'' @ [CHR 0x27] @ '').value;\<newline>'',
     ''      const state = document.querySelector('' @ [CHR 0x27] @ ''input[name=\"state\"]'' @ [CHR 0x27] @ '').value;\<newline>'',
     ''      if (redirectUri) {\<newline>'',
     ''        const url = new URL(redirectUri);\<newline>'',
     ''        url.searchParams.set('' @ [CHR 0x27] @ ''error'' @ [CHR 0x27] @ '', '' @ [CHR 0x27] @ ''access_denied'' @ [CHR 0x27] @ '');\<newline>'',
     ''        url.searchParams.set('' @ [CHR 0x27] @ ''error_description'' @ [CHR 0x27] @ '', '' @ [CHR 0x27] @ ''User denied the authorization request'' @ [CHR 0x27] @ '');\<newline>'',
     ''        if (state) {\<newline>'',
     ''          url.searchParams.set('' @ [CHR 0x27] @ ''state'' @ [CHR 0x27] @ '', state);\<newline>'',
     ''        }\<newline>'',
     ''        window.location.href = url.toString();\<newline>'',
     ''      }\<newline>'',
     ''    }\<newline>'',
     ''  </script>\<newline>'',
     ''</body>\<newline>'',
     ''</html>'']"
record page_options =
  clientName :: "string option"
  scopes :: "string list option"
  state :: "string option"
  redirectUri :: "string option"
  codeChallenge :: "string option"
  error :: "string option"

text \<open>\<open>scopeList\<close> (lines 25-27) and \<open>errorHtml\<close> (lines 29-31).\<close>

definition scopeList :: "string list option \<Rightarrow> string" where
  "scopeList scs =
     (case scs of
        None \<Rightarrow> ''<li>mcp:tools (default)</li>''
      | Some xs \<Rightarrow>
          if length xs > 0 then concat (map (\<lambda>s. ''<li>'' @ escapeHtml s @ ''</li>'') xs)
          else ''<li>mcp:tools (default)</li>'')"

definition errorHtml :: "string option \<Rightarrow> string" where
  "errorHtml err =
     (case err of
        None \<Rightarrow> []
      | Some e \<Rightarrow> if e = [] then [] else ''<div class=\"error\">'' @ escapeHtml e @ ''</div>'')"

definition generateAuthorizePage :: "page_options \<Rightarrow> string" where
  "generateAuthorizePage opts =
     page_head @ escapeHtml (or_str (clientName opts) ''Unknown Application'') @
     page_after_name @ scopeList (scopes opts) @
     page_after_scopes @ errorHtml (error opts) @
     page_after_error @ escapeHtml (or_str (state opts) []) @
     page_after_state @ escapeHtml (or_str (redirectUri opts) []) @
     page_after_redirect @ escapeHtml (or_str (codeChallenge opts) []) @
     page_tail"

text \<open>
  What the specification says of the escaping, character by character: each of the
  five characters becomes its entity, every other character stays.
\<close>

definition html_entity :: "char \<Rightarrow> string" where
  "html_entity c =
     (if c = CHR ''&'' then ''&amp;''
      else if c = CHR ''<'' then ''&lt;''
      else if c = CHR ''>'' then ''&gt;''
      else if c = CHR 0x22 then ''&quot;''
      else if c = CHR 0x27 then ''&#39;''
      else [c])"

text \<open>
  The characters of a text that open or close a tag or delimit an attribute value,
  in their order.
\<close>

definition is_markup :: "char \<Rightarrow> bool" where
  "is_markup c = (c = CHR ''<'' \<or> c = CHR ''>'' \<or> c = CHR 0x22 \<or> c = CHR 0x27)"

definition markup :: "string \<Rightarrow> string" where
  "markup txt = filter is_markup txt"

text \<open>
  The part of the options that decides which fixed pieces the page has: the number of
  scope entries and whether an error message is shown.
\<close>

definition page_shape :: "page_options \<Rightarrow> nat \<times> bool" where
  "page_shape opts =
     (case scopes opts of None \<Rightarrow> 0 | Some xs \<Rightarrow> length xs, truthy (error opts))"

section \<open>The OAuth provider (src/oauth/provider.js)\<close>

text \<open>The fields of \<open>OAuthClientInformationFull\<close> that the provider reads or writes.\<close>

record oauth_client =
  client_id :: string
  client_secret :: "string option"
  client_id_issued_at :: "int option"
  client_name :: "string option"

text \<open>
  The record stored under an authorization code by \<open>handleAuthorizeSubmit\<close>
  (lines 111-118): its fields are exactly those written there.
\<close>

record code_data =
  c_twentyApiKey :: string
  c_codeChallenge :: "string option"
  c_redirectUri :: string
  c_state :: "string option"
  c_scopes :: "string list"
  c_expiresAt :: int

text \<open>The record stored under an access token (lines 204-210 and 263-269).\<close>

record token_data =
  t_clientId :: string
  t_scopes :: "string list"
  t_expiresAt :: int
  t_twentyApiKey :: string
  t_resource :: "string option"

text \<open>The record stored under a refresh token (lines 213-218).\<close>

record refresh_data =
  r_clientId :: string
  r_scopes :: "string list"
  r_twentyApiKey :: string
  r_createdAt :: int

text \<open>
  The provider object: the four in-memory \<open>Map\<close>s and the configuration set by the
  constructor. A \<open>Map\<close> keyed by strings is a partial function from strings.
\<close>

record provider =
  twentyBaseUrl :: string
  clients :: "string \<rightharpoonup> oauth_client"
  codes :: "string \<rightharpoonup> code_data"
  tokens :: "string \<rightharpoonup> token_data"
  refreshTokens :: "string \<rightharpoonup> refresh_data"
  accessTokenTTL :: int
  authCodeTTL :: int
  refreshTokenTTL :: int

record provider_options =
  opt_twentyBaseUrl :: "string option"
  opt_accessTokenTTL :: "int option"
  opt_authCodeTTL :: "int option"
  opt_refreshTokenTTL :: "int option"

text \<open>
  The constructor (lines 12-25). \<open>env_base_url\<close> is the value of the environment
  variable \<open>TWENTY_BASE_URL\<close>.
\<close>

definition new_provider :: "provider_options \<Rightarrow> string option \<Rightarrow> provider" where
  "new_provider options env_base_url =
     \<lparr> twentyBaseUrl =
         or_str (opt_twentyBaseUrl options) (or_str env_base_url ''https://api.twenty.com''),
       clients = Map.empty,
       codes = Map.empty,
       tokens = Map.empty,
       refreshTokens = Map.empty,
       accessTokenTTL = or_num (opt_accessTokenTTL options) 3600,
       authCodeTTL = or_num (opt_authCodeTTL options) 300,
       refreshTokenTTL = or_num (opt_refreshTokenTTL options) (30 * 24 * 3600) \<rparr>"

definition no_options :: provider_options where
  "no_options = \<lparr> opt_twentyBaseUrl = None, opt_accessTokenTTL = None,
                   opt_authCodeTTL = None, opt_refreshTokenTTL = None \<rparr>"

text \<open>Every \<open>throw new Error(...)\<close> of the provider, and the \<open>TypeError\<close> of \<open>new URL\<close>.\<close>

datatype provider_error =
    Invalid_authorization_code
  | Authorization_code_expired
  | Invalid_refresh_token
  | Refresh_token_wrong_client
  | Refresh_token_expired
  | Invalid_access_token
  | Access_token_expired
  | Invalid_URL

text \<open>
  The clock is an argument: \<open>now_ms\<close> is a reading of \<open>Date.now()\<close> in milliseconds,
  and \<open>Math.floor(Date.now() / 1000)\<close> is \<open>seconds now_ms\<close>. The random strings of
  \<open>generateId\<close>, \<open>generateSecret\<close> and \<open>generateToken\<close> are arguments too.
\<close>

definition seconds :: "int \<Rightarrow> int" where
  "seconds now_ms = now_ms div 1000"

subsection \<open>clientsStore (lines 30-49)\<close>

definition getClient :: "string \<Rightarrow> provider \<Rightarrow> oauth_client option" where
  "getClient clientId s = clients s clientId"

definition registerClient ::
  "oauth_client \<Rightarrow> string \<Rightarrow> string \<Rightarrow> int \<Rightarrow> provider \<Rightarrow> oauth_client \<times> provider" where
  "registerClient clientMetadata clientId clientSecret now_ms s =
     (let client = clientMetadata\<lparr> client_id := clientId,
                                   client_secret := Some clientSecret,
                                   client_id_issued_at := Some (seconds now_ms) \<rparr>
      in (client, s\<lparr>clients := (clients s)(clientId \<mapsto> client)\<rparr>))"

subsection \<open>authorize (lines 57-68)\<close>

text \<open>
  What is written to the Express response: an HTML body with its status, or a redirect
  to a URL given as the address it was built from and the query parameters set on it.
\<close>

datatype http_response =
    Html nat string
  | Redirect string "(string \<times> string) list"

record authorization_params =
  p_scopes :: "string list option"
  p_state :: "string option"
  p_redirectUri :: string
  p_codeChallenge :: string

definition authorize :: "oauth_client \<Rightarrow> authorization_params \<Rightarrow> http_response" where
  "authorize client params =
     Html 200 (generateAuthorizePage
       \<lparr> clientName = Some (or_str (client_name client) (client_id client)),
         scopes = Some (case p_scopes params of None \<Rightarrow> [] | Some xs \<Rightarrow> xs),
         state = Some (or_str (p_state params) []),
         redirectUri = Some (p_redirectUri params),
         codeChallenge = Some (p_codeChallenge params),
         error = None \<rparr>)"

subsection \<open>validateTwentyApiKey (lines 135-152)\<close>

record http_request =
  req_method :: string
  req_url :: string
  req_headers :: "(string \<times> string) list"

text \<open>
  \<open>fetch\<close> either resolves to a response, of which the code reads only \<open>ok\<close>, or
  rejects. \<open>Response.ok\<close> is the platform's: true for the statuses 200 to 299.
\<close>

datatype fetch_outcome = Fetch_response nat | Fetch_throws string

definition response_ok :: "nat \<Rightarrow> bool" where
  "response_ok status = (200 \<le> status \<and> status \<le> 299)"

definition validateTwentyApiKey ::
  "(http_request \<Rightarrow> fetch_outcome) \<Rightarrow> string \<Rightarrow> provider \<Rightarrow> bool" where
  "validateTwentyApiKey fetch apiKey s =
     (case fetch \<lparr> req_method = ''GET'',
                   req_url = twentyBaseUrl s @ ''/rest/people?limit=1'',
                   req_headers = [(''Authorization'', ''Bearer '' @ apiKey),
                                  (''Content-Type'', ''application/json'')] \<rparr> of
        Fetch_response status \<Rightarrow> response_ok status
      | Fetch_throws msg \<Rightarrow> False)"

subsection \<open>handleAuthorizeSubmit (lines 76-128)\<close>

record submit_body =
  api_key :: "string option"
  body_state :: "string option"
  redirect_uri :: "string option"
  code_challenge :: "string option"

definition error_page :: "submit_body \<Rightarrow> string \<Rightarrow> http_response" where
  "error_page body msg =
     Html 400 (generateAuthorizePage
       \<lparr> clientName = Some ''Unknown'',
         scopes = Some [],
         state = Some (or_str (body_state body) []),
         redirectUri = Some (or_str (redirect_uri body) []),
         codeChallenge = Some (or_str (code_challenge body) []),
         error = Some msg \<rparr>)"

text \<open>
  \<open>valid_url\<close> says whether \<open>new URL(redirect_uri)\<close> parses; where it does not, the
  constructor throws after the code has been stored. \<open>code\<close> is the result of
  \<open>generateId()\<close>.
\<close>

definition handleAuthorizeSubmit ::
  "(http_request \<Rightarrow> fetch_outcome) \<Rightarrow> (string \<Rightarrow> bool) \<Rightarrow> string \<Rightarrow> int \<Rightarrow>
   submit_body \<Rightarrow> provider \<Rightarrow> (provider_error + http_response) \<times> provider" where
  "handleAuthorizeSubmit fetch valid_url code now_ms body s =
     (if \<not> truthy (api_key body) \<or> \<not> truthy (redirect_uri body)
      then (Inr (error_page body ''API key is required''), s)
      else if \<not> validateTwentyApiKey fetch (or_str (api_key body) []) s
      then (Inr (error_page body
              ''Invalid API key. Please check your Twenty CRM API key and try again.''), s)
      else
        let s' = s\<lparr>codes := (codes s)(code \<mapsto>
                   \<lparr> c_twentyApiKey = or_str (api_key body) [],
                     c_codeChallenge = code_challenge body,
                     c_redirectUri = or_str (redirect_uri body) [],
                     c_state = body_state body,
                     c_scopes = [''mcp:tools''],
                     c_expiresAt = now_ms + authCodeTTL s * 1000 \<rparr>)\<rparr>
        in if \<not> valid_url (or_str (redirect_uri body) []) then (Inl Invalid_URL, s')
           else (Inr (Redirect (or_str (redirect_uri body) [])
                   ((''code'', code) #
                    (if truthy (body_state body)
                     then [(''state'', or_str (body_state body) [])] else []))), s'))"

subsection \<open>challengeForAuthorizationCode (lines 160-172)\<close>

definition challengeForAuthorizationCode ::
  "oauth_client \<Rightarrow> string \<Rightarrow> int \<Rightarrow> provider \<Rightarrow> (provider_error + string option) \<times> provider" where
  "challengeForAuthorizationCode client authorizationCode now_ms s =
     (case codes s authorizationCode of
        None \<Rightarrow> (Inl Invalid_authorization_code, s)
      | Some codeData \<Rightarrow>
          if now_ms > c_expiresAt codeData
          then (Inl Authorization_code_expired,
                s\<lparr>codes := (codes s)(authorizationCode := None)\<rparr>)
          else (Inr (c_codeChallenge codeData), s))"

subsection \<open>exchangeAuthorizationCode (lines 183-227)\<close>

record oauth_tokens =
  access_token :: string
  token_type :: string
  expires_in :: int
  refresh_token :: "string option"
  scope :: string

text \<open>
  The clock is read twice: \<open>now_ms\<close> at the expiry check (line 189) and \<open>now_ms2\<close>
  when the tokens are minted (line 200). \<open>accessToken\<close> and \<open>refreshToken\<close> are the
  two results of \<open>generateToken()\<close>; \<open>resource\<close> is \<open>resource?.toString()\<close>.
\<close>

definition exchangeAuthorizationCode ::
  "oauth_client \<Rightarrow> string \<Rightarrow> string option \<Rightarrow> string option \<Rightarrow> string option \<Rightarrow>
   int \<Rightarrow> int \<Rightarrow> string \<Rightarrow> string \<Rightarrow> provider \<Rightarrow> (provider_error + oauth_tokens) \<times> provider" where
  "exchangeAuthorizationCode client authorizationCode codeVerifier redirectUri' resource
       now_ms now_ms2 accessToken refreshToken s =
     (case codes s authorizationCode of
        None \<Rightarrow> (Inl Invalid_authorization_code, s)
      | Some codeData \<Rightarrow>
          if now_ms > c_expiresAt codeData
          then (Inl Authorization_code_expired,
                s\<lparr>codes := (codes s)(authorizationCode := None)\<rparr>)
          else
            let now = seconds now_ms2;
                expiresAt = now + accessTokenTTL s
            in (Inr \<lparr> access_token = accessToken,
                      token_type = ''Bearer'',
                      expires_in = accessTokenTTL s,
                      refresh_token = Some refreshToken,
                      scope = join '' '' (c_scopes codeData) \<rparr>,
                s\<lparr> codes := (codes s)(authorizationCode := None),
                   tokens := (tokens s)(accessToken \<mapsto>
                     \<lparr> t_clientId = client_id client,
                       t_scopes = c_scopes codeData,
                       t_expiresAt = expiresAt,
                       t_twentyApiKey = c_twentyApiKey codeData,
                       t_resource = resource \<rparr>),
                   refreshTokens := (refreshTokens s)(refreshToken \<mapsto>
                     \<lparr> r_clientId = client_id client,
                       r_scopes = c_scopes codeData,
                       r_twentyApiKey = c_twentyApiKey codeData,
                       r_createdAt = now \<rparr>) \<rparr>))"

subsection \<open>exchangeRefreshToken (lines 237-277)\<close>

definition effectiveScopes :: "string list option \<Rightarrow> string list \<Rightarrow> string list" where
  "effectiveScopes requested original =
     (case requested of
        None \<Rightarrow> original
      | Some xs \<Rightarrow> if length xs > 0 then filter (\<lambda>s. s \<in> set original) xs else original)"

definition exchangeRefreshToken ::
  "oauth_client \<Rightarrow> string \<Rightarrow> string list option \<Rightarrow> string option \<Rightarrow>
   int \<Rightarrow> string \<Rightarrow> provider \<Rightarrow> (provider_error + oauth_tokens) \<times> provider" where
  "exchangeRefreshToken client refreshToken scopes' resource now_ms accessToken s =
     (case refreshTokens s refreshToken of
        None \<Rightarrow> (Inl Invalid_refresh_token, s)
      | Some refreshData \<Rightarrow>
          if r_clientId refreshData \<noteq> client_id client
          then (Inl Refresh_token_wrong_client, s)
          else
            let now = seconds now_ms in
            if now - r_createdAt refreshData > refreshTokenTTL s
            then (Inl Refresh_token_expired,
                  s\<lparr>refreshTokens := (refreshTokens s)(refreshToken := None)\<rparr>)
            else
              let expiresAt = now + accessTokenTTL s;
                  eff = effectiveScopes scopes' (r_scopes refreshData)
              in (Inr \<lparr> access_token = accessToken,
                        token_type = ''Bearer'',
                        expires_in = accessTokenTTL s,
                        refresh_token = None,
                        scope = join '' '' eff \<rparr>,
                  s\<lparr>tokens := (tokens s)(accessToken \<mapsto>
                     \<lparr> t_clientId = client_id client,
                       t_scopes = eff,
                       t_expiresAt = expiresAt,
                       t_twentyApiKey = r_twentyApiKey refreshData,
                       t_resource = resource \<rparr>)\<rparr>))"

subsection \<open>verifyAccessToken (lines 284-306)\<close>

record auth_info =
  ai_token :: string
  ai_clientId :: string
  ai_scopes :: "string list"
  ai_expiresAt :: int
  ai_resource :: "string option"
  ai_twentyApiKey :: string

definition verifyAccessToken ::
  "string \<Rightarrow> int \<Rightarrow> provider \<Rightarrow> (provider_error + auth_info) \<times> provider" where
  "verifyAccessToken tok now_ms s =
     (case tokens s tok of
        None \<Rightarrow> (Inl Invalid_access_token, s)
      | Some tokenData \<Rightarrow>
          if seconds now_ms > t_expiresAt tokenData
          then (Inl Access_token_expired, s\<lparr>tokens := (tokens s)(tok := None)\<rparr>)
          else (Inr \<lparr> ai_token = tok,
                      ai_clientId = t_clientId tokenData,
                      ai_scopes = t_scopes tokenData,
                      ai_expiresAt = t_expiresAt tokenData,
                      ai_resource = (if truthy (t_resource tokenData)
                                     then t_resource tokenData else None),
                      ai_twentyApiKey = t_twentyApiKey tokenData \<rparr>, s))"

subsection \<open>revokeToken (lines 313-335)\<close>

record revocation_request =
  token :: string
  token_type_hint :: "string option"

definition revokeToken ::
  "oauth_client \<Rightarrow> revocation_request \<Rightarrow> provider \<Rightarrow> (provider_error + unit) \<times> provider" where
  "revokeToken client request s =
     (let tok = token request; hint = token_type_hint request;
          access_hit =
            ((\<not> truthy hint \<or> hint = Some ''access_token'') \<and>
             (case tokens s tok of None \<Rightarrow> False
              | Some tokenData \<Rightarrow> t_clientId tokenData = client_id client));
          refresh_hit =
            ((\<not> truthy hint \<or> hint = Some ''refresh_token'') \<and>
             (case refreshTokens s tok of None \<Rightarrow> False
              | Some refreshData \<Rightarrow> r_clientId refreshData = client_id client))
      in if access_hit then (Inr (), s\<lparr>tokens := (tokens s)(tok := None)\<rparr>)
         else if refresh_hit then (Inr (), s\<lparr>refreshTokens := (refreshTokens s)(tok := None)\<rparr>)
         else (Inr (), s))"

subsection \<open>getApiKeyForToken (lines 342-345)\<close>

definition getApiKeyForToken :: "string \<Rightarrow> provider \<Rightarrow> string option" where
  "getApiKeyForToken tok s =
     (case tokens s tok of
        None \<Rightarrow> None
      | Some tokenData \<Rightarrow>
          if t_twentyApiKey tokenData = [] then None else Some (t_twentyApiKey tokenData))"

subsection \<open>cleanup (lines 374-398)\<close>

text \<open>Each loop deletes the entries its test selects and keeps the others as they are.\<close>

definition sweep :: "('v \<Rightarrow> bool) \<Rightarrow> (string \<rightharpoonup> 'v) \<Rightarrow> (string \<rightharpoonup> 'v)" where
  "sweep expired m =
     (\<lambda>k. case m k of None \<Rightarrow> None | Some d \<Rightarrow> if expired d then None else Some d)"

definition cleanup :: "int \<Rightarrow> provider \<Rightarrow> provider" where
  "cleanup now s =
     (let nowSeconds = seconds now
      in s\<lparr> codes := sweep (\<lambda>d. now > c_expiresAt d) (codes s),
            tokens := sweep (\<lambda>d. nowSeconds > t_expiresAt d) (tokens s),
            refreshTokens :=
              sweep (\<lambda>d. nowSeconds - r_createdAt d > refreshTokenTTL s) (refreshTokens s) \<rparr>)"

subsection \<open>The states a provider can be in\<close>

text \<open>
  A provider starts as the constructor leaves it and changes only through its methods.
\<close>

inductive reachable :: "provider \<Rightarrow> bool" where
  r_new: "reachable (new_provider options env_base_url)"
| r_register: "reachable s \<Longrightarrow>
     reachable (snd (registerClient clientMetadata clientId clientSecret now_ms s))"
| r_submit: "reachable s \<Longrightarrow>
     reachable (snd (handleAuthorizeSubmit fetch valid_url code now_ms body s))"
| r_challenge: "reachable s \<Longrightarrow>
     reachable (snd (challengeForAuthorizationCode client authorizationCode now_ms s))"
| r_exchange_code: "reachable s \<Longrightarrow>
     reachable (snd (exchangeAuthorizationCode client authorizationCode codeVerifier
        redirectUri' resource now_ms now_ms2 accessToken refreshToken s))"
| r_exchange_refresh: "reachable s \<Longrightarrow>
     reachable (snd (exchangeRefreshToken client refreshToken scopes' resource now_ms
        accessToken s))"
| r_verify: "reachable s \<Longrightarrow> reachable (snd (verifyAccessToken tok now_ms s))"
| r_revoke: "reachable s \<Longrightarrow> reachable (snd (revokeToken client request s))"
| r_cleanup: "reachable s \<Longrightarrow> reachable (cleanup now_ms s)"

text \<open>Every stored record carries a non-empty CRM API key.\<close>

definition keys_present :: "provider \<Rightarrow> bool" where
  "keys_present s =
     ((\<forall>k d. codes s k = Some d \<longrightarrow> c_twentyApiKey d \<noteq> []) \<and>
      (\<forall>k d. tokens s k = Some d \<longrightarrow> t_twentyApiKey d \<noteq> []) \<and>
      (\<forall>k d. refreshTokens s k = Some d \<longrightarrow> r_twentyApiKey d \<noteq> []))"

section \<open>The desktop proxy (call-tool handler of \<open>initializeServer\<close>)\<close>

text \<open>
  What a \<open>catch\<close> receives: an \<open>Error\<close> object with its message, or any other thrown
  value, kept as the string \<open>String(error)\<close> gives.
\<close>

datatype thrown = Error_object string | Other_value string

record content_item =
  ci_type :: string
  ci_text :: string

record tool_result =
  content :: "content_item list"
  isError :: "bool option"

text \<open>
  The remote client is what \<open>callTool\<close> does with a tool name and its arguments:
  it resolves to a result or rejects.
\<close>

type_synonym remote_client = "string \<Rightarrow> jv \<Rightarrow> thrown + tool_result"

record proxy =
  serverUrl :: string
  apiKey :: string
  remoteClient :: "remote_client option"

text \<open>
  \<open>getRemoteClient\<close> (lines 50-55): \<open>connect\<close> is the outcome of
  \<open>createRemoteClient()\<close>, which throws when the connection fails.
\<close>

definition getRemoteClient ::
  "(thrown + remote_client) \<Rightarrow> proxy \<Rightarrow> (thrown + remote_client) \<times> proxy" where
  "getRemoteClient connect p =
     (case remoteClient p of
        Some c \<Rightarrow> (Inr c, p)
      | None \<Rightarrow>
          (case connect of
             Inl e \<Rightarrow> (Inl e, p)
           | Inr c \<Rightarrow> (Inr c, p\<lparr>remoteClient := Some c\<rparr>)))"

definition callRemoteTool ::
  "(thrown + remote_client) \<Rightarrow> string \<Rightarrow> jv \<Rightarrow> proxy \<Rightarrow> (thrown + tool_result) \<times> proxy" where
  "callRemoteTool connect toolName args p =
     (case getRemoteClient connect p of
        (Inl e, p') \<Rightarrow> (Inl e, p')
      | (Inr c, p') \<Rightarrow> (c toolName args, p'))"

record call_tool_params =
  name :: string
  arguments :: "jv option"

definition errorMessage :: "thrown \<Rightarrow> string" where
  "errorMessage e = (case e of Error_object msg \<Rightarrow> msg | Other_value str \<Rightarrow> str)"

text \<open>
  The handler (lines 87-99), with \<open>args || {}\<close> as \<open>args_or_empty\<close>; the line it
  writes to the log is left out. Its result is a sum so that an exception leaving the
  handler would be a value \<open>Inl\<close>.
\<close>

definition args_or_empty :: "jv option \<Rightarrow> jv" where
  "args_or_empty args =
     (case args of None \<Rightarrow> JObj [] | Some a \<Rightarrow> if js_truthy a then a else JObj [])"

definition callToolHandler ::
  "(thrown + remote_client) \<Rightarrow> call_tool_params \<Rightarrow> proxy \<Rightarrow> (thrown + tool_result) \<times> proxy" where
  "callToolHandler connect params p =
     (case callRemoteTool connect (name params) (args_or_empty (arguments params)) p of
        (Inr r, p') \<Rightarrow> (Inr r, p')
      | (Inl e, p') \<Rightarrow>
          (Inr \<lparr> content = [\<lparr> ci_type = ''text'',
                                ci_text = ''Error: '' @ errorMessage e \<rparr>],
                  isError = Some True \<rparr>, p'))"

section \<open>Field normalization (Adapter Server)\<close>

text \<open>
  Modelled from the spec: the four normalization functions are methods of the Adapter
  Server (\<open>index.js\<close>), of which only the test file is at hand; the definitions
  of this section follow section 4.2.1 of the specification. Where that text does not say what a function returns (a number, an
  empty array, an object without the structured shape's key, an array entry that is
  neither a string nor an object with the entry's main key), the model returns \<open>None\<close>.
\<close>

definition has_key :: "string \<Rightarrow> jv \<Rightarrow> bool" where
  "has_key k v = (case v of JObj kvs \<Rightarrow> map_of kvs k \<noteq> None | _ \<Rightarrow> False)"

definition field_or :: "(string \<times> jv) list \<Rightarrow> string \<Rightarrow> jv \<Rightarrow> jv" where
  "field_or kvs k d = (case map_of kvs k of None \<Rightarrow> d | Some x \<Rightarrow> x)"

text \<open>All results of a list of optional results, or none when one is missing.\<close>

fun all_some :: "'a option list \<Rightarrow> 'a list option" where
  "all_some [] = Some []"
| "all_some (None # xs) = None"
| "all_some (Some x # xs) = (case all_some xs of None \<Rightarrow> None | Some ys \<Rightarrow> Some (x # ys))"

text \<open>
  Modelled from the spec: \<open>normalizeEmailsValue\<close>. "A plain string \<open>\<rightarrow>\<close>
  \<open>{primaryEmail: <string>, additionalEmails: null}\<close>. An array \<open>\<rightarrow>\<close> \<open>primaryEmail\<close> =
  the first entry's address (string or object), \<open>additionalEmails\<close> = remaining entries
  each mapped to \<open>{value: <address>}\<close>; empty remainder \<open>\<rightarrow>\<close> \<open>null\<close>. An
  already-structured object (has \<open>primaryEmail\<close>) \<open>\<rightarrow>\<close> passed through unchanged."
  The text does not name the key that holds the address of an object entry:
  \<open>object_address\<close> stands for that reading.
\<close>

definition email_address :: "((string \<times> jv) list \<Rightarrow> jv) \<Rightarrow> jv \<Rightarrow> jv option" where
  "email_address object_address e =
     (case e of JStr a \<Rightarrow> Some (JStr a) | JObj kvs \<Rightarrow> Some (object_address kvs) | _ \<Rightarrow> None)"

definition normalizeEmailsValue :: "((string \<times> jv) list \<Rightarrow> jv) \<Rightarrow> jv \<Rightarrow> jv option" where
  "normalizeEmailsValue object_address v =
     (case v of
        JStr a \<Rightarrow> Some (JObj [(''primaryEmail'', JStr a), (''additionalEmails'', JNull)])
      | JArr [] \<Rightarrow> None
      | JArr (e # es) \<Rightarrow>
          (case (email_address object_address e,
                 all_some (map (email_address object_address) es)) of
             (Some a, Some rest) \<Rightarrow>
               Some (JObj [(''primaryEmail'', a),
                           (''additionalEmails'',
                            if rest = [] then JNull
                            else JArr (map (\<lambda>x. JObj [(''value'', x)]) rest))])
           | _ \<Rightarrow> None)
      | JObj kvs \<Rightarrow> if has_key ''primaryEmail'' v then Some v else None
      | _ \<Rightarrow> None)"

text \<open>
  Modelled from the spec: \<open>normalizePhonesValue\<close>. "A plain string \<open>\<rightarrow>\<close>
  \<open>{primaryPhoneNumber: <string>, primaryPhoneCallingCode: '', primaryPhoneCountryCode: '',
  additionalPhones: null}\<close>. An array \<open>\<rightarrow>\<close> the first entry (string or
  \<open>{number, countryCode, callingCode}\<close> object) populates the four primary fields
  (missing calling/country code default to empty string); remaining entries are each
  converted to a \<open>{number, countryCode, callingCode}\<close> object (string entries become
  \<open>{number: <string>, countryCode: '', callingCode: ''}\<close>); empty remainder \<open>\<rightarrow>\<close>
  \<open>null\<close>. An object with \<open>primaryPhoneNumber\<close> \<open>\<rightarrow>\<close> unchanged."
\<close>

definition phone_entry :: "jv \<Rightarrow> (jv \<times> jv \<times> jv) option" where
  "phone_entry e =
     (case e of
        JStr n \<Rightarrow> Some (JStr n, JStr [], JStr [])
      | JObj kvs \<Rightarrow>
          (case map_of kvs ''number'' of
             None \<Rightarrow> None
           | Some n \<Rightarrow> Some (n, field_or kvs ''countryCode'' (JStr []),
                               field_or kvs ''callingCode'' (JStr [])))
      | _ \<Rightarrow> None)"

definition normalizePhonesValue :: "jv \<Rightarrow> jv option" where
  "normalizePhonesValue v =
     (case v of
        JStr n \<Rightarrow>
          Some (JObj [(''primaryPhoneNumber'', JStr n), (''primaryPhoneCallingCode'', JStr []),
                      (''primaryPhoneCountryCode'', JStr []), (''additionalPhones'', JNull)])
      | JArr [] \<Rightarrow> None
      | JArr (e # es) \<Rightarrow>
          (case (phone_entry e, all_some (map phone_entry es)) of
             (Some (n, country, calling), Some rest) \<Rightarrow>
               Some (JObj [(''primaryPhoneNumber'', n), (''primaryPhoneCallingCode'', calling),
                           (''primaryPhoneCountryCode'', country),
                           (''additionalPhones'',
                            if rest = [] then JNull
                            else JArr (map (\<lambda>(n', country', calling').
                                   JObj [(''number'', n'), (''countryCode'', country'),
                                         (''callingCode'', calling')]) rest))])
           | _ \<Rightarrow> None)
      | JObj kvs \<Rightarrow> if has_key ''primaryPhoneNumber'' v then Some v else None
      | _ \<Rightarrow> None)"

text \<open>
  Modelled from the spec: \<open>normalizeAddressValue\<close>. "A plain string \<open>\<rightarrow>\<close>
  \<open>{addressStreet1: <string>, addressStreet2: '', addressCity: '', addressState: '',
  addressPostcode: '', addressCountry: '', addressLat: null, addressLng: null}\<close>. An
  object already keyed with \<open>addressStreet1\<close> \<open>\<rightarrow>\<close> unchanged. An object using the
  standard shape (\<open>street1/street2/city/state/postalCode/country\<close>, any subset)
  \<open>\<rightarrow>\<close> each present key maps to its \<open>address\<close>-prefixed counterpart, absent keys
  default to \<open>''\<close> (lat/lng default to \<open>null\<close> unless explicitly present). An object
  using the alternate standard shape (\<open>addressLine1/addressLine2/city/state/zip/country\<close>)
  \<open>\<rightarrow>\<close> \<open>addressLine1\<close> to \<open>addressStreet1\<close>, \<open>addressLine2\<close> to \<open>addressStreet2\<close>,
  \<open>zip\<close> to \<open>addressPostcode\<close>, \<open>city/state/country\<close> map directly, same defaulting
  rule for absent fields." An object is of the alternate shape when it has one of the
  keys only that shape has; the text does not say what an object with keys of both
  shapes gives.
\<close>

definition address_object :: "jv \<Rightarrow> jv \<Rightarrow> jv \<Rightarrow> (string \<times> jv) list \<Rightarrow> jv" where
  "address_object street1 street2 postcode kvs =
     JObj [(''addressStreet1'', street1), (''addressStreet2'', street2),
           (''addressCity'', field_or kvs ''city'' (JStr [])),
           (''addressState'', field_or kvs ''state'' (JStr [])),
           (''addressPostcode'', postcode),
           (''addressCountry'', field_or kvs ''country'' (JStr [])),
           (''addressLat'', field_or kvs ''lat'' JNull),
           (''addressLng'', field_or kvs ''lng'' JNull)]"

definition normalizeAddressValue :: "jv \<Rightarrow> jv option" where
  "normalizeAddressValue v =
     (case v of
        JStr a \<Rightarrow>
          Some (JObj [(''addressStreet1'', JStr a), (''addressStreet2'', JStr []),
                      (''addressCity'', JStr []), (''addressState'', JStr []),
                      (''addressPostcode'', JStr []), (''addressCountry'', JStr []),
                      (''addressLat'', JNull), (''addressLng'', JNull)])
      | JObj kvs \<Rightarrow>
          (let standard = (has_key ''street1'' v \<or> has_key ''street2'' v \<or>
                           has_key ''postalCode'' v);
               alternate = (has_key ''addressLine1'' v \<or> has_key ''addressLine2'' v \<or>
                            has_key ''zip'' v)
           in if has_key ''addressStreet1'' v then Some v
              else if standard \<and> alternate then None
              else if alternate
              then Some (address_object (field_or kvs ''addressLine1'' (JStr []))
                           (field_or kvs ''addressLine2'' (JStr []))
                           (field_or kvs ''zip'' (JStr [])) kvs)
              else Some (address_object (field_or kvs ''street1'' (JStr []))
                           (field_or kvs ''street2'' (JStr []))
                           (field_or kvs ''postalCode'' (JStr [])) kvs))
      | _ \<Rightarrow> None)"

text \<open>
  Modelled from the spec: \<open>normalizeLinksValue\<close>. "A plain string (URL) \<open>\<rightarrow>\<close>
  \<open>{primaryLinkUrl: <string>, primaryLinkLabel: '', secondaryLinks: null}\<close>. An object
  with \<open>primaryLinkUrl\<close> \<open>\<rightarrow>\<close> unchanged. An array of URLs/label-objects \<open>\<rightarrow>\<close> first
  entry becomes the primary (empty label if given as a bare string), remainder become
  \<open>secondaryLinks\<close> entries of \<open>{url, label}\<close> (empty remainder \<open>\<rightarrow>\<close> \<open>null\<close>)."
\<close>

definition link_entry :: "jv \<Rightarrow> (jv \<times> jv) option" where
  "link_entry e =
     (case e of
        JStr u \<Rightarrow> Some (JStr u, JStr [])
      | JObj kvs \<Rightarrow>
          (case map_of kvs ''url'' of
             None \<Rightarrow> None
           | Some u \<Rightarrow> Some (u, field_or kvs ''label'' (JStr [])))
      | _ \<Rightarrow> None)"

definition normalizeLinksValue :: "jv \<Rightarrow> jv option" where
  "normalizeLinksValue v =
     (case v of
        JStr u \<Rightarrow>
          Some (JObj [(''primaryLinkUrl'', JStr u), (''primaryLinkLabel'', JStr []),
                      (''secondaryLinks'', JNull)])
      | JArr [] \<Rightarrow> None
      | JArr (e # es) \<Rightarrow>
          (case (link_entry e, all_some (map link_entry es)) of
             (Some (u, l), Some rest) \<Rightarrow>
               Some (JObj [(''primaryLinkUrl'', u), (''primaryLinkLabel'', l),
                           (''secondaryLinks'',
                            if rest = [] then JNull
                            else JArr (map (\<lambda>(u', l'). JObj [(''url'', u'), (''label'', l')])
                                         rest))])
           | _ \<Rightarrow> None)
      | JObj kvs \<Rightarrow> if has_key ''primaryLinkUrl'' v then Some v else None
      | _ \<Rightarrow> None)"

section \<open>Example values\<close>

text \<open>
  A run of the authorization flow with the default configuration: a form submission at
  time \<open>1000000\<close> ms whose key the CRM accepts stores the code \<open>code-1\<close>; client
  \<open>client-a\<close> exchanges it at \<open>1060000\<close> ms for an access and a refresh token.
\<close>

definition ex_client :: oauth_client where
  "ex_client = \<lparr> client_id = ''client-a'', client_secret = None,
                  client_id_issued_at = None, client_name = None \<rparr>"

definition ex_other_client :: oauth_client where
  "ex_other_client = \<lparr> client_id = ''client-b'', client_secret = None,
                        client_id_issued_at = None, client_name = None \<rparr>"

definition ex_body :: submit_body where
  "ex_body = \<lparr> api_key = Some ''key-1'', body_state = Some ''xyz'',
                redirect_uri = Some ''https://app.example/cb'',
                code_challenge = Some ''challenge-1'' \<rparr>"

definition ex_submitted :: provider where
  "ex_submitted =
     snd (handleAuthorizeSubmit (\<lambda>r. Fetch_response 200) (\<lambda>u. True) ''code-1'' 1000000
            ex_body (new_provider no_options None))"

definition ex_exchanged :: provider where
  "ex_exchanged =
     snd (exchangeAuthorizationCode ex_client ''code-1'' None None None
            1060000 1060000 ''access-1'' ''refresh-1'' ex_submitted)"

definition ex_revocation :: revocation_request where
  "ex_revocation = \<lparr> token = ''access-1'', token_type_hint = None \<rparr>"

text \<open>Page options with markup in every field, and harmless ones of the same shape.\<close>

definition ex_hostile_options :: page_options where
  "ex_hostile_options =
     \<lparr> clientName = Some ''<script>alert(1)</script>'',
       scopes = Some [''<b>'', ''a&b''],
       state = Some ''\"><img src=x>'',
       redirectUri = Some ([CHR 0x27] @ '' onfocus='' @ [CHR 0x27]),
       codeChallenge = Some ''</form>'',
       error = Some ''<i>no</i>'' \<rparr>"

definition ex_plain_options :: page_options where
  "ex_plain_options =
     \<lparr> clientName = Some ''App'',
       scopes = Some [''read'', ''write''],
       state = Some ''s1'',
       redirectUri = Some ''cb'',
       codeChallenge = Some ''c1'',
       error = Some ''no'' \<rparr>"

text \<open>A proxy that has not connected yet, and a remote client whose calls fail.\<close>

definition ex_proxy :: proxy where
  "ex_proxy = \<lparr> serverUrl = ''https://mcp.example/mcp'', apiKey = ''key-1'',
                 remoteClient = None \<rparr>"

definition ex_failing_remote :: remote_client where
  "ex_failing_remote = (\<lambda>toolName args. Inl (Error_object ''HTTP 500''))"

definition ex_call :: call_tool_params where
  "ex_call = \<lparr> name = ''list_people'', arguments = None \<rparr>"

section \<open>The example run\<close>

lemma ex_submitted_eq:
  "ex_submitted = (new_provider no_options None)\<lparr>codes := [''code-1'' \<mapsto>
      \<lparr> c_twentyApiKey = ''key-1'', c_codeChallenge = Some ''challenge-1'',
        c_redirectUri = ''https://app.example/cb'', c_state = Some ''xyz'',
        c_scopes = [''mcp:tools''], c_expiresAt = 1300000 \<rparr>]\<rparr>"
  by (simp add: ex_submitted_def handleAuthorizeSubmit_def validateTwentyApiKey_def
      response_ok_def ex_body_def truthy_def or_str_def new_provider_def no_options_def
      or_num_def Let_def)

lemma ex_submitted_codes:
  "codes ex_submitted ''code-1'' = Some
      \<lparr> c_twentyApiKey = ''key-1'', c_codeChallenge = Some ''challenge-1'',
        c_redirectUri = ''https://app.example/cb'', c_state = Some ''xyz'',
        c_scopes = [''mcp:tools''], c_expiresAt = 1300000 \<rparr>"
  by (simp add: ex_submitted_eq)

lemma ex_submitted_config:
  "accessTokenTTL ex_submitted = 3600" "authCodeTTL ex_submitted = 300"
  "refreshTokenTTL ex_submitted = 2592000"
  by (simp_all add: ex_submitted_eq new_provider_def no_options_def or_num_def)

lemma ex_exchanged_tokens:
  "tokens ex_exchanged = [''access-1'' \<mapsto>
      \<lparr> t_clientId = ''client-a'', t_scopes = [''mcp:tools''], t_expiresAt = 4660,
        t_twentyApiKey = ''key-1'', t_resource = None \<rparr>]"
  by (simp add: ex_exchanged_def ex_submitted_eq exchangeAuthorizationCode_def
      new_provider_def no_options_def or_num_def seconds_def Let_def ex_client_def)

lemma ex_exchanged_refreshTokens:
  "refreshTokens ex_exchanged = [''refresh-1'' \<mapsto>
      \<lparr> r_clientId = ''client-a'', r_scopes = [''mcp:tools''],
        r_twentyApiKey = ''key-1'', r_createdAt = 1060 \<rparr>]"
  by (simp add: ex_exchanged_def ex_submitted_eq exchangeAuthorizationCode_def
      new_provider_def no_options_def or_num_def seconds_def Let_def ex_client_def)

lemma ex_exchanged_config:
  "accessTokenTTL ex_exchanged = 3600" "refreshTokenTTL ex_exchanged = 2592000"
  by (simp_all add: ex_exchanged_def ex_submitted_eq exchangeAuthorizationCode_def
      new_provider_def no_options_def or_num_def seconds_def Let_def ex_client_def)

lemma ex_exchanged_reachable: "reachable ex_exchanged"
  unfolding ex_exchanged_def ex_submitted_def
  by (intro r_exchange_code r_submit r_new)

section \<open>Revocation\<close>

text \<open>
  C5. \<open>revokeToken\<close> never raises. When the token is in neither store, or is there
  under another client's id, the call returns normally and the provider is unchanged.
  Whatever the call removes from either store is the entry under the requested token,
  and that entry existed with the requesting client's id.
\<close>

theorem revokeToken_silent:
  "(\<exists>s'. revokeToken client request s = (Inr (), s')) \<and>
   (((case tokens s (token request) of None \<Rightarrow> True
      | Some d \<Rightarrow> t_clientId d \<noteq> client_id client) \<and>
     (case refreshTokens s (token request) of None \<Rightarrow> True
      | Some d \<Rightarrow> r_clientId d \<noteq> client_id client))
      \<longrightarrow> revokeToken client request s = (Inr (), s)) \<and>
   (\<forall>k. tokens (snd (revokeToken client request s)) k \<noteq> tokens s k \<longrightarrow>
        k = token request \<and> tokens (snd (revokeToken client request s)) k = None \<and>
        (\<exists>d. tokens s k = Some d \<and> t_clientId d = client_id client)) \<and>
   (\<forall>k. refreshTokens (snd (revokeToken client request s)) k \<noteq> refreshTokens s k \<longrightarrow>
        k = token request \<and> refreshTokens (snd (revokeToken client request s)) k = None \<and>
        (\<exists>d. refreshTokens s k = Some d \<and> r_clientId d = client_id client))"
  by (auto simp: revokeToken_def Let_def split: option.splits if_splits)

theorem revokeToken_silent_witness:
  "revokeToken ex_other_client ex_revocation ex_exchanged = (Inr (), ex_exchanged) \<and>
   tokens (snd (revokeToken ex_client ex_revocation ex_exchanged)) ''access-1'' = None \<and>
   tokens ex_exchanged ''access-1'' \<noteq> None"
proof -
  note a = revokeToken_silent [of ex_other_client ex_revocation ex_exchanged]
  note b = revokeToken_silent [of ex_client ex_revocation ex_exchanged]
  have unchanged:
    "revokeToken ex_other_client ex_revocation ex_exchanged = (Inr (), ex_exchanged)"
    using a [THEN conjunct2, THEN conjunct1]
    by (simp add: ex_exchanged_tokens ex_exchanged_refreshTokens ex_revocation_def
        ex_other_client_def)
  have there: "tokens ex_exchanged ''access-1'' \<noteq> None"
    by (simp add: ex_exchanged_tokens)
  have gone:
    "tokens (snd (revokeToken ex_client ex_revocation ex_exchanged)) ''access-1'' = None"
    using b [THEN conjunct2, THEN conjunct2, THEN conjunct1, THEN spec, of "''access-1''"]
      there
    by (cases "tokens (snd (revokeToken ex_client ex_revocation ex_exchanged)) ''access-1''
               = tokens ex_exchanged ''access-1''")
       (simp_all add: revokeToken_def Let_def ex_exchanged_tokens ex_revocation_def
          ex_client_def truthy_def)
  from unchanged gone there show ?thesis by simp
qed

section \<open>Authorization codes\<close>

lemma submit_stores_code:
  assumes "truthy (api_key body)" "truthy (redirect_uri body)"
    "validateTwentyApiKey fetch (or_str (api_key body) []) s0"
  shows "codes (snd (handleAuthorizeSubmit fetch valid_url code t0 body s0)) code = Some
           \<lparr> c_twentyApiKey = or_str (api_key body) [],
             c_codeChallenge = code_challenge body,
             c_redirectUri = or_str (redirect_uri body) [],
             c_state = body_state body,
             c_scopes = [''mcp:tools''],
             c_expiresAt = t0 + authCodeTTL s0 * 1000 \<rparr>"
  using assms by (simp add: handleAuthorizeSubmit_def Let_def)

lemma exchange_unknown_code:
  "codes s code = None \<Longrightarrow>
   exchangeAuthorizationCode client code v r rs now now2 at rt s
     = (Inl Invalid_authorization_code, s)"
  by (simp add: exchangeAuthorizationCode_def)

lemma exchange_expired_code:
  "codes s code = Some cd \<Longrightarrow> now > c_expiresAt cd \<Longrightarrow>
   exchangeAuthorizationCode client code v r rs now now2 at rt s
     = (Inl Authorization_code_expired, s\<lparr>codes := (codes s)(code := None)\<rparr>)"
  by (simp add: exchangeAuthorizationCode_def)

lemma exchange_live_code:
  "codes s code = Some cd \<Longrightarrow> now \<le> c_expiresAt cd \<Longrightarrow>
   exchangeAuthorizationCode client code v r rs now now2 at rt s =
     (Inr \<lparr> access_token = at, token_type = ''Bearer'', expires_in = accessTokenTTL s,
            refresh_token = Some rt, scope = join '' '' (c_scopes cd) \<rparr>,
      s\<lparr> codes := (codes s)(code := None),
         tokens := (tokens s)(at \<mapsto>
           \<lparr> t_clientId = client_id client, t_scopes = c_scopes cd,
             t_expiresAt = seconds now2 + accessTokenTTL s,
             t_twentyApiKey = c_twentyApiKey cd, t_resource = rs \<rparr>),
         refreshTokens := (refreshTokens s)(rt \<mapsto>
           \<lparr> r_clientId = client_id client, r_scopes = c_scopes cd,
             r_twentyApiKey = c_twentyApiKey cd, r_createdAt = seconds now2 \<rparr>) \<rparr>)"
  by (simp add: exchangeAuthorizationCode_def Let_def)

text \<open>
  C1. A form submission that passes the checks stores its code with an expiry
  \<open>authCodeTTL\<close> seconds later (300 by default). For a stored code that has not
  expired, the exchange succeeds and leaves the code store without the code, and in
  the state it leaves every further exchange of that code fails as invalid and changes
  nothing. For a stored code past its expiry, the exchange fails as expired and the
  entry is deleted.
\<close>

theorem authorization_code_single_use:
  "(truthy (api_key body) \<and> truthy (redirect_uri body) \<and>
    validateTwentyApiKey fetch (or_str (api_key body) []) s0 \<longrightarrow>
      (\<exists>cd. codes (snd (handleAuthorizeSubmit fetch valid_url code t0 body s0)) code = Some cd
            \<and> c_expiresAt cd = t0 + authCodeTTL s0 * 1000)) \<and>
   authCodeTTL (new_provider no_options env) = 300 \<and>
   (\<forall>cd. codes s code = Some cd \<and> now \<le> c_expiresAt cd \<longrightarrow>
      (\<exists>resp s1. exchangeAuthorizationCode client code v r rs now now2 at rt s = (Inr resp, s1)
         \<and> codes s1 code = None
         \<and> (\<forall>client' v' r' rs' now' now2' at' rt'.
               exchangeAuthorizationCode client' code v' r' rs' now' now2' at' rt' s1
                 = (Inl Invalid_authorization_code, s1)))) \<and>
   (\<forall>cd. codes s code = Some cd \<and> now > c_expiresAt cd \<longrightarrow>
      exchangeAuthorizationCode client code v r rs now now2 at rt s
        = (Inl Authorization_code_expired, s\<lparr>codes := (codes s)(code := None)\<rparr>))"
proof (intro conjI allI impI)
  assume "truthy (api_key body) \<and> truthy (redirect_uri body) \<and>
    validateTwentyApiKey fetch (or_str (api_key body) []) s0"
  then show "\<exists>cd. codes (snd (handleAuthorizeSubmit fetch valid_url code t0 body s0)) code
      = Some cd \<and> c_expiresAt cd = t0 + authCodeTTL s0 * 1000"
    by (simp add: submit_stores_code)
next
  show "authCodeTTL (new_provider no_options env) = 300"
    by (simp add: new_provider_def no_options_def or_num_def)
next
  fix cd
  assume live: "codes s code = Some cd \<and> now \<le> c_expiresAt cd"
  let ?s1 = "snd (exchangeAuthorizationCode client code v r rs now now2 at rt s)"
  have first: "\<exists>resp. exchangeAuthorizationCode client code v r rs now now2 at rt s
      = (Inr resp, ?s1)"
    using live by (simp add: exchange_live_code)
  have gone: "codes ?s1 code = None"
    using live by (simp add: exchange_live_code)
  have again: "exchangeAuthorizationCode client' code v' r' rs' now' now2' at' rt' ?s1
      = (Inl Invalid_authorization_code, ?s1)" for client' v' r' rs' now' now2' at' rt'
    using gone by (rule exchange_unknown_code)
  from first gone again
  show "\<exists>resp s1. exchangeAuthorizationCode client code v r rs now now2 at rt s = (Inr resp, s1)
         \<and> codes s1 code = None
         \<and> (\<forall>client' v' r' rs' now' now2' at' rt'.
               exchangeAuthorizationCode client' code v' r' rs' now' now2' at' rt' s1
                 = (Inl Invalid_authorization_code, s1))"
    by blast
next
  fix cd
  assume "codes s code = Some cd \<and> c_expiresAt cd < now"
  then show "exchangeAuthorizationCode client code v r rs now now2 at rt s
        = (Inl Authorization_code_expired, s\<lparr>codes := (codes s)(code := None)\<rparr>)"
    by (simp add: exchange_expired_code)
qed

theorem authorization_code_single_use_witness:
  "(\<exists>cd. codes ex_submitted ''code-1'' = Some cd \<and> c_expiresAt cd = 1300000) \<and>
   (\<exists>resp. exchangeAuthorizationCode ex_client ''code-1'' None None None
              1060000 1060000 ''access-1'' ''refresh-1'' ex_submitted
            = (Inr resp, ex_exchanged)) \<and>
   codes ex_exchanged ''code-1'' = None \<and>
   exchangeAuthorizationCode ex_other_client ''code-1'' None None None
       1070000 1070000 ''access-2'' ''refresh-2'' ex_exchanged
     = (Inl Invalid_authorization_code, ex_exchanged) \<and>
   exchangeAuthorizationCode ex_client ''code-1'' None None None
       1300001 1300001 ''access-1'' ''refresh-1'' ex_submitted
     = (Inl Authorization_code_expired,
        ex_submitted\<lparr>codes := (codes ex_submitted)(''code-1'' := None)\<rparr>)"
proof -
  note live = authorization_code_single_use
    [where body = ex_body and fetch = "\<lambda>r. Fetch_response 200"
       and ?s0.0 = "new_provider no_options None" and valid_url = "\<lambda>u. True"
       and code = "''code-1''" and ?t0.0 = 1000000 and s = ex_submitted
       and now = 1060000 and ?now2.0 = 1060000 and client = ex_client
       and v = None and r = None and rs = None
       and at = "''access-1''" and rt = "''refresh-1''"]
  note dead = authorization_code_single_use
    [where s = ex_submitted and code = "''code-1''" and now = 1300001
       and ?now2.0 = 1300001 and client = ex_client and v = None and r = None
       and rs = None and at = "''access-1''" and rt = "''refresh-1''"]
  have checks: "truthy (api_key ex_body) \<and> truthy (redirect_uri ex_body) \<and>
      validateTwentyApiKey (\<lambda>r. Fetch_response 200) (or_str (api_key ex_body) [])
        (new_provider no_options None)"
    by (simp add: ex_body_def truthy_def or_str_def validateTwentyApiKey_def response_ok_def)
  have stored: "\<exists>cd. codes ex_submitted ''code-1'' = Some cd \<and> c_expiresAt cd = 1300000"
    using live [THEN conjunct1] checks
    by (simp add: ex_submitted_def new_provider_def no_options_def or_num_def)
  obtain resp s1 where
    first: "exchangeAuthorizationCode ex_client ''code-1'' None None None
              1060000 1060000 ''access-1'' ''refresh-1'' ex_submitted = (Inr resp, s1)"
    and gone: "codes s1 ''code-1'' = None"
    and again: "\<And>client' v' r' rs' now' now2' at' rt'.
        exchangeAuthorizationCode client' ''code-1'' v' r' rs' now' now2' at' rt' s1
          = (Inl Invalid_authorization_code, s1)"
    using live [THEN conjunct2, THEN conjunct2, THEN conjunct1] ex_submitted_codes
    by auto
  have s1: "s1 = ex_exchanged"
    using first by (simp add: ex_exchanged_def)
  have expired: "exchangeAuthorizationCode ex_client ''code-1'' None None None
       1300001 1300001 ''access-1'' ''refresh-1'' ex_submitted
     = (Inl Authorization_code_expired,
        ex_submitted\<lparr>codes := (codes ex_submitted)(''code-1'' := None)\<rparr>)"
    using dead [THEN conjunct2, THEN conjunct2, THEN conjunct2] ex_submitted_codes
    by simp
  from stored first gone again [of ex_other_client None None None 1070000 1070000
      "''access-2''" "''refresh-2''"] expired
  show ?thesis unfolding s1 by blast
qed


text \<open>
  C10. The record \<open>handleAuthorizeSubmit\<close> stores under a code is made of the form's
  fields, the fixed scope list and the expiry: none of its fields names a client. The
  exchange of a stored, unexpired code succeeds for whichever client record is passed
  in, and the access and refresh token it mints are stored with that caller's
  \<open>client_id\<close>.
\<close>

theorem authorization_code_not_client_bound:
  "(truthy (api_key body) \<and> truthy (redirect_uri body) \<and>
    validateTwentyApiKey fetch (or_str (api_key body) []) s0 \<longrightarrow>
      codes (snd (handleAuthorizeSubmit fetch valid_url code t0 body s0)) code = Some
        \<lparr> c_twentyApiKey = or_str (api_key body) [],
          c_codeChallenge = code_challenge body,
          c_redirectUri = or_str (redirect_uri body) [],
          c_state = body_state body,
          c_scopes = [''mcp:tools''],
          c_expiresAt = t0 + authCodeTTL s0 * 1000 \<rparr>) \<and>
   (\<forall>cd. codes s code = Some cd \<and> now \<le> c_expiresAt cd \<longrightarrow>
      (\<forall>client. \<exists>resp s' td rd.
         exchangeAuthorizationCode client code v r rs now now2 at rt s = (Inr resp, s') \<and>
         access_token resp = at \<and> refresh_token resp = Some rt \<and>
         tokens s' at = Some td \<and> t_clientId td = client_id client \<and>
         refreshTokens s' rt = Some rd \<and> r_clientId rd = client_id client))"
  by (simp add: submit_stores_code exchange_live_code)

theorem authorization_code_not_client_bound_witness:
  "\<exists>resp s' td rd.
     exchangeAuthorizationCode ex_other_client ''code-1'' None None None
       1060000 1060000 ''access-1'' ''refresh-1'' ex_submitted = (Inr resp, s') \<and>
     tokens s' ''access-1'' = Some td \<and> t_clientId td = ''client-b'' \<and>
     refreshTokens s' ''refresh-1'' = Some rd \<and> r_clientId rd = ''client-b''"
proof -
  have live: "codes ex_submitted ''code-1'' = Some
      \<lparr> c_twentyApiKey = ''key-1'', c_codeChallenge = Some ''challenge-1'',
        c_redirectUri = ''https://app.example/cb'', c_state = Some ''xyz'',
        c_scopes = [''mcp:tools''], c_expiresAt = 1300000 \<rparr> \<and>
      (1060000::int) \<le> c_expiresAt
      \<lparr> c_twentyApiKey = ''key-1'', c_codeChallenge = Some ''challenge-1'',
        c_redirectUri = ''https://app.example/cb'', c_state = Some ''xyz'',
        c_scopes = [''mcp:tools''], c_expiresAt = 1300000 \<rparr>"
    by (simp add: ex_submitted_codes)
  from authorization_code_not_client_bound
    [where s = ex_submitted and code = "''code-1''" and now = 1060000
       and ?now2.0 = 1060000 and v = None and r = None and rs = None
       and at = "''access-1''" and rt = "''refresh-1''",
     THEN conjunct2, THEN spec, THEN mp, OF live, THEN spec, of ex_other_client]
  have "\<exists>resp s' td rd.
     exchangeAuthorizationCode ex_other_client ''code-1'' None None None
       1060000 1060000 ''access-1'' ''refresh-1'' ex_submitted = (Inr resp, s') \<and>
     access_token resp = ''access-1'' \<and> refresh_token resp = Some ''refresh-1'' \<and>
     tokens s' ''access-1'' = Some td \<and> t_clientId td = client_id ex_other_client \<and>
     refreshTokens s' ''refresh-1'' = Some rd \<and> r_clientId rd = client_id ex_other_client" .
  moreover have "client_id ex_other_client = ''client-b''"
    by (simp add: ex_other_client_def)
  ultimately show ?thesis
    by auto
qed

section \<open>Refresh tokens\<close>

text \<open>
  C3. An unknown refresh token fails as not found. A known one presented by a client
  other than its owner fails and the provider keeps the token. A known one presented
  by its owner more than \<open>refreshTokenTTL\<close> seconds (2,592,000 by default) after its
  creation fails as expired and its entry is deleted.
\<close>

theorem exchangeRefreshToken_failures:
  "(refreshTokens s rt = None \<longrightarrow>
      exchangeRefreshToken client rt scs rs now at s = (Inl Invalid_refresh_token, s)) \<and>
   (\<forall>d. refreshTokens s rt = Some d \<and> r_clientId d \<noteq> client_id client \<longrightarrow>
      exchangeRefreshToken client rt scs rs now at s = (Inl Refresh_token_wrong_client, s)) \<and>
   (\<forall>d. refreshTokens s rt = Some d \<and> r_clientId d = client_id client \<and>
        seconds now - r_createdAt d > refreshTokenTTL s \<longrightarrow>
      exchangeRefreshToken client rt scs rs now at s
        = (Inl Refresh_token_expired, s\<lparr>refreshTokens := (refreshTokens s)(rt := None)\<rparr>)) \<and>
   refreshTokenTTL (new_provider no_options env) = 2592000"
  by (simp add: exchangeRefreshToken_def Let_def new_provider_def no_options_def or_num_def)

theorem exchangeRefreshToken_failures_witness:
  "exchangeRefreshToken ex_client ''unknown'' None None 1070000 ''access-2'' ex_exchanged
     = (Inl Invalid_refresh_token, ex_exchanged) \<and>
   exchangeRefreshToken ex_other_client ''refresh-1'' None None 1070000 ''access-2'' ex_exchanged
     = (Inl Refresh_token_wrong_client, ex_exchanged) \<and>
   exchangeRefreshToken ex_client ''refresh-1'' None None 2593061000 ''access-2'' ex_exchanged
     = (Inl Refresh_token_expired,
        ex_exchanged\<lparr>refreshTokens := (refreshTokens ex_exchanged)(''refresh-1'' := None)\<rparr>)"
proof -
  have unknown:
    "exchangeRefreshToken ex_client ''unknown'' None None 1070000 ''access-2'' ex_exchanged
       = (Inl Invalid_refresh_token, ex_exchanged)"
    using exchangeRefreshToken_failures
      [where s = ex_exchanged and rt = "''unknown''" and client = ex_client and scs = None
         and rs = None and now = 1070000 and at = "''access-2''", THEN conjunct1]
    by (simp add: ex_exchanged_refreshTokens)
  have other:
    "exchangeRefreshToken ex_other_client ''refresh-1'' None None 1070000 ''access-2''
       ex_exchanged = (Inl Refresh_token_wrong_client, ex_exchanged)"
    using exchangeRefreshToken_failures
      [where s = ex_exchanged and rt = "''refresh-1''" and client = ex_other_client
         and scs = None and rs = None and now = 1070000 and at = "''access-2''",
       THEN conjunct2, THEN conjunct1]
    by (simp add: ex_exchanged_refreshTokens ex_other_client_def)
  have expired:
    "exchangeRefreshToken ex_client ''refresh-1'' None None 2593061000 ''access-2''
       ex_exchanged
     = (Inl Refresh_token_expired,
        ex_exchanged\<lparr>refreshTokens := (refreshTokens ex_exchanged)(''refresh-1'' := None)\<rparr>)"
    using exchangeRefreshToken_failures
      [where s = ex_exchanged and rt = "''refresh-1''" and client = ex_client
         and scs = None and rs = None and now = 2593061000 and at = "''access-2''",
       THEN conjunct2, THEN conjunct2, THEN conjunct1]
    by (simp add: ex_exchanged_refreshTokens ex_client_def ex_exchanged_config seconds_def)
  from unknown other expired show ?thesis by simp
qed

text \<open>
  C4. When \<open>exchangeRefreshToken\<close> succeeds, the access token it returns is stored
  with the effective scopes, and the response's scope string is those scopes joined by
  spaces. With a non-empty list of requested scopes the effective scopes are the
  requested ones that occur among the refresh token's scopes (as a set, the
  intersection of the two); without a list, or with an empty one, they are the refresh
  token's scopes unchanged.
\<close>

theorem exchangeRefreshToken_scopes:
  "exchangeRefreshToken client rt scs rs now at s = (Inr resp, s') \<Longrightarrow>
   \<exists>d td. refreshTokens s rt = Some d \<and> access_token resp = at \<and> tokens s' at = Some td \<and>
     scope resp = join '' '' (t_scopes td) \<and>
     (\<forall>xs. scs = Some xs \<and> xs \<noteq> [] \<longrightarrow>
        t_scopes td = filter (\<lambda>x. x \<in> set (r_scopes d)) xs \<and>
        set (t_scopes td) = set xs \<inter> set (r_scopes d)) \<and>
     (scs = None \<or> scs = Some [] \<longrightarrow> t_scopes td = r_scopes d)"
  by (auto simp: exchangeRefreshToken_def effectiveScopes_def Let_def
      split: option.splits if_splits)

theorem exchangeRefreshToken_scopes_witness:
  "\<exists>td. tokens (snd (exchangeRefreshToken ex_client ''refresh-1''
             (Some [''admin'', ''mcp:tools'']) None 1070000 ''access-2'' ex_exchanged))
           ''access-2'' = Some td \<and>
        t_scopes td = [''mcp:tools'']"
proof -
  obtain resp s' where run:
    "exchangeRefreshToken ex_client ''refresh-1'' (Some [''admin'', ''mcp:tools'']) None
       1070000 ''access-2'' ex_exchanged = (Inr resp, s')"
    by (simp add: exchangeRefreshToken_def ex_exchanged_refreshTokens ex_client_def
        ex_exchanged_config seconds_def Let_def)
  from exchangeRefreshToken_scopes [OF run]
  obtain d td where d: "refreshTokens ex_exchanged ''refresh-1'' = Some d"
    and td: "tokens s' ''access-2'' = Some td"
    and eff: "t_scopes td = filter (\<lambda>x. x \<in> set (r_scopes d)) [''admin'', ''mcp:tools'']"
    by auto
  from d have "r_scopes d = [''mcp:tools'']"
    by (auto simp: ex_exchanged_refreshTokens)
  with eff have "t_scopes td = [''mcp:tools'']"
    by simp
  with td show ?thesis
    by (simp add: run)
qed

section \<open>Access tokens\<close>

lemma keys_present_new: "keys_present (new_provider options env)"
  by (simp add: keys_present_def new_provider_def)

lemma keys_present_register:
  "keys_present s \<Longrightarrow> keys_present (snd (registerClient m cid sec now s))"
  by (simp add: keys_present_def registerClient_def Let_def)

lemma truthy_or_str: "truthy v \<Longrightarrow> or_str v d \<noteq> []"
  by (auto simp: truthy_def or_str_def split: option.splits)

lemma keys_present_submit:
  "keys_present s \<Longrightarrow>
   keys_present (snd (handleAuthorizeSubmit fetch valid_url code now body s))"
  by (auto simp: keys_present_def handleAuthorizeSubmit_def Let_def truthy_or_str
      split: if_splits)

lemma keys_present_challenge:
  "keys_present s \<Longrightarrow> keys_present (snd (challengeForAuthorizationCode client code now s))"
  by (auto simp: keys_present_def challengeForAuthorizationCode_def
      split: option.splits if_splits)

lemma keys_present_exchange_code:
  "keys_present s \<Longrightarrow>
   keys_present (snd (exchangeAuthorizationCode client code v r rs now now2 at rt s))"
  by (auto simp: keys_present_def exchangeAuthorizationCode_def Let_def
      split: option.splits if_splits)

lemma keys_present_exchange_refresh:
  "keys_present s \<Longrightarrow>
   keys_present (snd (exchangeRefreshToken client rt scs rs now at s))"
  by (auto simp: keys_present_def exchangeRefreshToken_def Let_def
      split: option.splits if_splits)

lemma keys_present_verify:
  "keys_present s \<Longrightarrow> keys_present (snd (verifyAccessToken tok now s))"
  by (auto simp: keys_present_def verifyAccessToken_def split: option.splits if_splits)

lemma keys_present_revoke:
  "keys_present s \<Longrightarrow> keys_present (snd (revokeToken client request s))"
  by (auto simp: keys_present_def revokeToken_def Let_def split: option.splits if_splits)

lemma keys_present_cleanup: "keys_present s \<Longrightarrow> keys_present (cleanup now s)"
  by (auto simp: keys_present_def cleanup_def sweep_def Let_def
      split: option.splits if_splits)

lemma reachable_keys_present: "reachable s \<Longrightarrow> keys_present s"
proof (induction rule: reachable.induct)
  case (r_new options env_base_url)
  show ?case by (rule keys_present_new)
next
  case (r_register s clientMetadata clientId clientSecret now_ms)
  then show ?case by (simp add: keys_present_register)
next
  case (r_submit s fetch valid_url code now_ms body)
  then show ?case by (simp add: keys_present_submit)
next
  case (r_challenge s client authorizationCode now_ms)
  then show ?case by (simp add: keys_present_challenge)
next
  case (r_exchange_code s client authorizationCode codeVerifier redirectUri' resource
      now_ms now_ms2 accessToken refreshToken)
  then show ?case by (simp add: keys_present_exchange_code)
next
  case (r_exchange_refresh s client refreshToken scopes' resource now_ms accessToken)
  then show ?case by (simp add: keys_present_exchange_refresh)
next
  case (r_verify s tok now_ms)
  then show ?case by (simp add: keys_present_verify)
next
  case (r_revoke s client request)
  then show ?case by (simp add: keys_present_revoke)
next
  case (r_cleanup s now_ms)
  then show ?case by (simp add: keys_present_cleanup)
qed

text \<open>
  C9. \<open>getApiKeyForToken\<close> reads no clock. In every state the provider can reach, a
  token that is still in the token store yields its bound CRM API key, never the null
  sentinel, also when its expiry time has passed; \<open>verifyAccessToken\<close> on the same
  token at such a time fails as expired and deletes the entry.
\<close>

theorem getApiKeyForToken_ignores_expiry:
  "reachable s \<Longrightarrow> tokens s tok = Some d \<Longrightarrow>
   getApiKeyForToken tok s = Some (t_twentyApiKey d) \<and>
   (seconds now > t_expiresAt d \<longrightarrow>
      verifyAccessToken tok now s
        = (Inl Access_token_expired, s\<lparr>tokens := (tokens s)(tok := None)\<rparr>))"
proof -
  assume "reachable s" and stored: "tokens s tok = Some d"
  then have "t_twentyApiKey d \<noteq> []"
    using reachable_keys_present [of s] by (simp add: keys_present_def)
  with stored show ?thesis
    by (simp add: getApiKeyForToken_def verifyAccessToken_def)
qed

theorem getApiKeyForToken_ignores_expiry_witness:
  "seconds 5000000 > (4660::int) \<and>
   getApiKeyForToken ''access-1'' ex_exchanged = Some ''key-1'' \<and>
   verifyAccessToken ''access-1'' 5000000 ex_exchanged
     = (Inl Access_token_expired,
        ex_exchanged\<lparr>tokens := (tokens ex_exchanged)(''access-1'' := None)\<rparr>)"
proof -
  have stored: "tokens ex_exchanged ''access-1'' = Some
      \<lparr> t_clientId = ''client-a'', t_scopes = [''mcp:tools''], t_expiresAt = 4660,
        t_twentyApiKey = ''key-1'', t_resource = None \<rparr>"
    by (simp add: ex_exchanged_tokens)
  from getApiKeyForToken_ignores_expiry [OF ex_exchanged_reachable stored, of 5000000]
  show ?thesis
    by (simp add: seconds_def)
qed

section \<open>Validation of the CRM API key\<close>

lemma validateTwentyApiKey_iff:
  "validateTwentyApiKey fetch key s \<longleftrightarrow>
     (\<exists>status. fetch \<lparr> req_method = ''GET'',
                         req_url = twentyBaseUrl s @ ''/rest/people?limit=1'',
                         req_headers = [(''Authorization'', ''Bearer '' @ key),
                                        (''Content-Type'', ''application/json'')] \<rparr>
                  = Fetch_response status \<and> 200 \<le> status \<and> status \<le> 299)"
  by (simp add: validateTwentyApiKey_def response_ok_def split: fetch_outcome.splits)

lemma validateTwentyApiKey_throws:
  "validateTwentyApiKey (\<lambda>r. Fetch_throws msg) key s = False"
  by (simp add: validateTwentyApiKey_def)

lemma submit_invalid_key:
  "truthy (api_key body) \<Longrightarrow> truthy (redirect_uri body) \<Longrightarrow>
   \<not> validateTwentyApiKey fetch (or_str (api_key body) []) s \<Longrightarrow>
   handleAuthorizeSubmit fetch valid_url code now body s =
     (Inr (Html 400 (generateAuthorizePage
        \<lparr> clientName = Some ''Unknown'', scopes = Some [],
          state = Some (or_str (body_state body) []),
          redirectUri = Some (or_str (redirect_uri body) []),
          codeChallenge = Some (or_str (code_challenge body) []),
          error = Some
            ''Invalid API key. Please check your Twenty CRM API key and try again.'' \<rparr>)),
      s)"
  by (simp add: handleAuthorizeSubmit_def error_page_def)

text \<open>
  C2. The CRM answering the validation request with status 204: \<open>validateTwentyApiKey\<close>
  returns true, since it returns \<open>response.ok\<close>, and \<open>handleAuthorizeSubmit\<close> stores a
  code and redirects instead of rendering the page with status 400.
\<close>

theorem validateTwentyApiKey_accepts_204:
  "validateTwentyApiKey (\<lambda>r. Fetch_response 204) ''key-1'' (new_provider no_options None) \<and>
   handleAuthorizeSubmit (\<lambda>r. Fetch_response 204) (\<lambda>u. True) ''code-1'' 1000000 ex_body
       (new_provider no_options None)
     = (Inr (Redirect ''https://app.example/cb'' [(''code'', ''code-1''), (''state'', ''xyz'')]),
        ex_submitted)"
  by (simp add: ex_submitted_eq handleAuthorizeSubmit_def validateTwentyApiKey_def
      response_ok_def ex_body_def truthy_def or_str_def new_provider_def no_options_def
      or_num_def Let_def)

theorem validateTwentyApiKey_accepts_204_witness:
  "\<exists>cd. codes (snd (handleAuthorizeSubmit (\<lambda>r. Fetch_response 204) (\<lambda>u. True) ''code-1''
                      1000000 ex_body (new_provider no_options None))) ''code-1'' = Some cd \<and>
         c_twentyApiKey cd = ''key-1''"
proof -
  from validateTwentyApiKey_accepts_204
  have "snd (handleAuthorizeSubmit (\<lambda>r. Fetch_response 204) (\<lambda>u. True) ''code-1''
               1000000 ex_body (new_provider no_options None)) = ex_submitted"
    by simp
  then show ?thesis
    by (simp add: ex_submitted_codes)
qed

section \<open>The desktop proxy\<close>

text \<open>
  C8. The call-tool handler never lets an exception out. When the remote call throws,
  either while connecting or in the tool call itself, the handler returns a result
  whose \<open>isError\<close> is true and whose single text item is \<open>Error: \<close> followed by the
  thrown error's message.
\<close>

theorem callToolHandler_catches:
  "(\<exists>result p'. callToolHandler connect params p = (Inr result, p')) \<and>
   (\<forall>e p'. callRemoteTool connect (name params) (args_or_empty (arguments params)) p
              = (Inl e, p') \<longrightarrow>
      callToolHandler connect params p =
        (Inr \<lparr> content = [\<lparr> ci_type = ''text'', ci_text = ''Error: '' @ errorMessage e \<rparr>],
               isError = Some True \<rparr>, p')) \<and>
   (\<forall>msg. errorMessage (Error_object msg) = msg)"
  by (auto simp: callToolHandler_def errorMessage_def split: prod.splits sum.splits)

theorem callToolHandler_catches_witness:
  "callToolHandler (Inr ex_failing_remote) ex_call ex_proxy =
     (Inr \<lparr> content = [\<lparr> ci_type = ''text'', ci_text = ''Error: HTTP 500'' \<rparr>],
            isError = Some True \<rparr>,
      ex_proxy\<lparr>remoteClient := Some ex_failing_remote\<rparr>) \<and>
   callToolHandler (Inl (Error_object ''connect ECONNREFUSED'')) ex_call ex_proxy =
     (Inr \<lparr> content = [\<lparr> ci_type = ''text'', ci_text = ''Error: connect ECONNREFUSED'' \<rparr>],
            isError = Some True \<rparr>, ex_proxy)"
proof -
  have call: "callRemoteTool (Inr ex_failing_remote) (name ex_call)
      (args_or_empty (arguments ex_call)) ex_proxy
      = (Inl (Error_object ''HTTP 500''), ex_proxy\<lparr>remoteClient := Some ex_failing_remote\<rparr>)"
    by (simp add: callRemoteTool_def getRemoteClient_def ex_proxy_def ex_failing_remote_def)
  have conn: "callRemoteTool (Inl (Error_object ''connect ECONNREFUSED'')) (name ex_call)
      (args_or_empty (arguments ex_call)) ex_proxy
      = (Inl (Error_object ''connect ECONNREFUSED''), ex_proxy)"
    by (simp add: callRemoteTool_def getRemoteClient_def ex_proxy_def)
  note thm1 = callToolHandler_catches [where connect = "Inr ex_failing_remote"
      and params = ex_call and p = ex_proxy, THEN conjunct2, THEN conjunct1,
      THEN spec, THEN spec, THEN mp, OF call]
  note thm2 = callToolHandler_catches
      [where connect = "Inl (Error_object ''connect ECONNREFUSED'')"
      and params = ex_call and p = ex_proxy, THEN conjunct2, THEN conjunct1,
      THEN spec, THEN spec, THEN mp, OF conn]
  from thm1 thm2 show ?thesis
    by (simp add: errorMessage_def)
qed

section \<open>The authorization page\<close>

lemma replace_all_Nil: "replace_all c rep [] = []"
  by (simp add: replace_all_def)

lemma replace_all_Cons:
  "replace_all c rep (x # xs) = (if x = c then rep else [x]) @ replace_all c rep xs"
  by (simp add: replace_all_def)

lemma replace_all_append:
  "replace_all c rep (xs @ ys) = replace_all c rep xs @ replace_all c rep ys"
  by (simp add: replace_all_def)

lemma replace_chain_Cons:
  "replace_all (CHR 0x27) ''&#39;''
     (replace_all (CHR 0x22) ''&quot;''
       (replace_all (CHR ''>'') ''&gt;''
         (replace_all (CHR ''<'') ''&lt;''
           (replace_all (CHR ''&'') ''&amp;'' (x # xs)))))
   = html_entity x @
     replace_all (CHR 0x27) ''&#39;''
       (replace_all (CHR 0x22) ''&quot;''
         (replace_all (CHR ''>'') ''&gt;''
           (replace_all (CHR ''<'') ''&lt;''
             (replace_all (CHR ''&'') ''&amp;'' xs))))"
  by (simp add: replace_all_Cons replace_all_append replace_all_Nil html_entity_def)

lemma replace_chain_entities:
  "replace_all (CHR 0x27) ''&#39;''
     (replace_all (CHR 0x22) ''&quot;''
       (replace_all (CHR ''>'') ''&gt;''
         (replace_all (CHR ''<'') ''&lt;''
           (replace_all (CHR ''&'') ''&amp;'' str))))
   = concat (map html_entity str)"
proof (induction str)
  case Nil
  show ?case by (simp add: replace_all_Nil)
next
  case (Cons x xs)
  then show ?case by (simp only: replace_chain_Cons list.map concat.simps)
qed

lemma escapeHtml_entities: "escapeHtml str = concat (map html_entity str)"
  by (simp add: escapeHtml_def replace_chain_entities)

lemma markup_append: "markup (xs @ ys) = markup xs @ markup ys"
  by (simp add: markup_def)

lemma markup_html_entity: "markup (html_entity c) = []"
  by (simp add: markup_def html_entity_def is_markup_def)

lemma markup_escapeHtml: "markup (escapeHtml str) = []"
  unfolding escapeHtml_entities
  by (induction str) (simp_all add: markup_append markup_html_entity, simp add: markup_def)

lemma markup_scope_items:
  "markup (concat (map (\<lambda>s. ''<li>'' @ escapeHtml s @ ''</li>'') xs))
     = concat (replicate (length xs) (markup ''<li></li>''))"
proof (induction xs)
  case Nil
  show ?case by (simp add: markup_def)
next
  case (Cons x xs)
  have "markup (''<li>'' @ escapeHtml x @ ''</li>'') = markup ''<li></li>''"
    using markup_escapeHtml [of x] by (simp add: markup_def)
  with Cons show ?case
    by (simp add: markup_append del: append.simps)
qed

lemma markup_scopeList:
  "markup (scopeList scs) =
     (case scs of
        None \<Rightarrow> markup ''<li>mcp:tools (default)</li>''
      | Some xs \<Rightarrow> if xs = [] then markup ''<li>mcp:tools (default)</li>''
                   else concat (replicate (length xs) (markup ''<li></li>'')))"
  by (simp add: scopeList_def markup_scope_items split: option.splits del: append.simps)

lemma markup_errorHtml:
  "markup (errorHtml err) =
     (if truthy err then markup ''<div class=\"error\"></div>'' else [])"
proof (cases err)
  case None
  then show ?thesis by (simp add: errorHtml_def truthy_def markup_def)
next
  case (Some e)
  have "markup (''<div class=\"error\">'' @ escapeHtml e @ ''</div>'')
      = markup ''<div class=\"error\"></div>''"
    using markup_escapeHtml [of e] by (simp add: markup_def)
  with Some show ?thesis
    by (simp add: errorHtml_def truthy_def) (simp add: markup_def)
qed

lemma markup_page:
  "markup (generateAuthorizePage opts) =
     markup page_head @ markup page_after_name @ markup (scopeList (scopes opts)) @
     markup page_after_scopes @ markup (errorHtml (error opts)) @
     markup page_after_error @ markup page_after_state @ markup page_after_redirect @
     markup page_tail"
  by (simp add: generateAuthorizePage_def markup_append markup_escapeHtml)

lemma scopeList_entities:
  "scopeList scs =
     (case scs of
        None \<Rightarrow> ''<li>mcp:tools (default)</li>''
      | Some xs \<Rightarrow>
          if xs = [] then ''<li>mcp:tools (default)</li>''
          else concat (map (\<lambda>s. ''<li>'' @ concat (map html_entity s) @ ''</li>'') xs))"
  by (simp add: scopeList_def escapeHtml_entities split: option.splits del: append.simps)

lemma errorHtml_entities:
  "errorHtml err =
     (case err of
        None \<Rightarrow> []
      | Some e \<Rightarrow>
          if e = [] then []
          else ''<div class=\"error\">'' @ concat (map html_entity e) @ ''</div>'')"
  by (simp add: errorHtml_def escapeHtml_entities split: option.splits del: append.simps)

lemma page_entities:
  "generateAuthorizePage opts =
     page_head @
     concat (map html_entity (or_str (clientName opts) ''Unknown Application'')) @
     page_after_name @
     (case scopes opts of
        None \<Rightarrow> ''<li>mcp:tools (default)</li>''
      | Some xs \<Rightarrow>
          if xs = [] then ''<li>mcp:tools (default)</li>''
          else concat (map (\<lambda>s. ''<li>'' @ concat (map html_entity s) @ ''</li>'') xs)) @
     page_after_scopes @
     (case error opts of
        None \<Rightarrow> []
      | Some e \<Rightarrow>
          if e = [] then []
          else ''<div class=\"error\">'' @ concat (map html_entity e) @ ''</div>'') @
     page_after_error @
     concat (map html_entity (or_str (state opts) [])) @
     page_after_state @
     concat (map html_entity (or_str (redirectUri opts) [])) @
     page_after_redirect @
     concat (map html_entity (or_str (codeChallenge opts) [])) @
     page_tail"
  unfolding generateAuthorizePage_def scopeList_entities errorHtml_entities
    escapeHtml_entities
  by (rule refl)

text \<open>
  C6. \<open>escapeHtml\<close> replaces each of the characters \<open>&\<close>, \<open><\<close>, \<open>>\<close>, the double
  and the single quote by its entity and leaves every other character: replacing the
  ampersand first, the later replacements never touch an entity already written. Its
  result contains none of \<open><\<close>, \<open>>\<close> and the two quotes. The page is the fixed text
  of the template with, at its six interpolations, the entity form of the client name
  (or of the default name), of each scope entry inside its list item, of the error
  message inside its banner, and of the state, the redirect URI and the code
  challenge: no caller-supplied character reaches the page but through the entity
  map. So the sequence of \<open><\<close>, \<open>>\<close> and quotes in the page is that of the
  template: two pages with the same number of scope entries and the same presence of
  an error message have the same such sequence, whatever the strings.
\<close>

theorem generateAuthorizePage_escapes:
  "escapeHtml str = concat (map html_entity str) \<and>
   markup (escapeHtml str) = [] \<and>
   generateAuthorizePage opts =
     page_head @
     concat (map html_entity (or_str (clientName opts) ''Unknown Application'')) @
     page_after_name @
     (case scopes opts of
        None \<Rightarrow> ''<li>mcp:tools (default)</li>''
      | Some xs \<Rightarrow>
          if xs = [] then ''<li>mcp:tools (default)</li>''
          else concat (map (\<lambda>s. ''<li>'' @ concat (map html_entity s) @ ''</li>'') xs)) @
     page_after_scopes @
     (case error opts of
        None \<Rightarrow> []
      | Some e \<Rightarrow>
          if e = [] then []
          else ''<div class=\"error\">'' @ concat (map html_entity e) @ ''</div>'') @
     page_after_error @
     concat (map html_entity (or_str (state opts) [])) @
     page_after_state @
     concat (map html_entity (or_str (redirectUri opts) [])) @
     page_after_redirect @
     concat (map html_entity (or_str (codeChallenge opts) [])) @
     page_tail \<and>
   (page_shape opts = page_shape opts' \<longrightarrow>
      markup (generateAuthorizePage opts) = markup (generateAuthorizePage opts'))"
proof -
  have entities: "escapeHtml str = concat (map html_entity str)"
    by (rule escapeHtml_entities)
  have clean: "markup (escapeHtml str) = []"
    by (rule markup_escapeHtml)
  have same: "markup (generateAuthorizePage opts) = markup (generateAuthorizePage opts')"
    if shape: "page_shape opts = page_shape opts'"
  proof -
    from shape have err: "truthy (error opts) = truthy (error opts')"
      by (simp add: page_shape_def)
    from shape have "markup (scopeList (scopes opts)) = markup (scopeList (scopes opts'))"
      by (auto simp: page_shape_def markup_scopeList split: option.splits)
    with err show ?thesis
      by (simp add: markup_page markup_errorHtml)
  qed
  from entities clean page_entities [of opts] same show ?thesis
    by (intro conjI impI)
qed

theorem generateAuthorizePage_escapes_witness:
  "escapeHtml ''<a href=\"x\">&'' = ''&lt;a href=&quot;x&quot;&gt;&amp;'' \<and>
   generateAuthorizePage ex_hostile_options =
     page_head @ ''&lt;script&gt;alert(1)&lt;/script&gt;'' @
     page_after_name @ ''<li>&lt;b&gt;</li><li>a&amp;b</li>'' @
     page_after_scopes @ ''<div class=\"error\">&lt;i&gt;no&lt;/i&gt;</div>'' @
     page_after_error @ ''&quot;&gt;&lt;img src=x&gt;'' @
     page_after_state @ ''&#39; onfocus=&#39;'' @
     page_after_redirect @ ''&lt;/form&gt;'' @
     page_tail \<and>
   markup (generateAuthorizePage ex_hostile_options)
     = markup (generateAuthorizePage ex_plain_options)"
proof -
  note facts = generateAuthorizePage_escapes
    [where str = "''<a href=\"x\">&''" and opts = ex_hostile_options
       and opts' = ex_plain_options]
  have shape: "page_shape ex_hostile_options = page_shape ex_plain_options"
    by (simp add: page_shape_def ex_hostile_options_def ex_plain_options_def truthy_def)
  have one: "escapeHtml ''<a href=\"x\">&'' = ''&lt;a href=&quot;x&quot;&gt;&amp;''"
    using facts [THEN conjunct1] by (simp add: html_entity_def)
  have two: "generateAuthorizePage ex_hostile_options =
     page_head @ ''&lt;script&gt;alert(1)&lt;/script&gt;'' @
     page_after_name @ ''<li>&lt;b&gt;</li><li>a&amp;b</li>'' @
     page_after_scopes @ ''<div class=\"error\">&lt;i&gt;no&lt;/i&gt;</div>'' @
     page_after_error @ ''&quot;&gt;&lt;img src=x&gt;'' @
     page_after_state @ ''&#39; onfocus=&#39;'' @
     page_after_redirect @ ''&lt;/form&gt;'' @
     page_tail"
    using facts [THEN conjunct2, THEN conjunct2, THEN conjunct1]
    by (simp add: ex_hostile_options_def or_str_def html_entity_def)
  have three: "markup (generateAuthorizePage ex_hostile_options)
     = markup (generateAuthorizePage ex_plain_options)"
    using facts [THEN conjunct2, THEN conjunct2, THEN conjunct2] shape by simp
  from one two three show ?thesis
    by (intro conjI)
qed

section \<open>Field normalization\<close>

text \<open>The cases of the test file, on the model.\<close>

lemma test_email_string:
  "normalizeEmailsValue a (JStr ''test@example.com'')
     = Some (JObj [(''primaryEmail'', JStr ''test@example.com''), (''additionalEmails'', JNull)])"
  by (simp add: normalizeEmailsValue_def)

lemma test_email_array:
  "normalizeEmailsValue a (JArr [JStr ''primary@example.com'', JStr ''secondary@example.com''])
     = Some (JObj [(''primaryEmail'', JStr ''primary@example.com''),
                   (''additionalEmails'',
                    JArr [JObj [(''value'', JStr ''secondary@example.com'')]])])"
  by (simp add: normalizeEmailsValue_def email_address_def)

lemma test_phone_string:
  "normalizePhonesValue (JStr ''+41 44 123 45 67'')
     = Some (JObj [(''primaryPhoneNumber'', JStr ''+41 44 123 45 67''),
                   (''primaryPhoneCallingCode'', JStr []),
                   (''primaryPhoneCountryCode'', JStr []), (''additionalPhones'', JNull)])"
  by (simp add: normalizePhonesValue_def)

lemma test_phone_array:
  "normalizePhonesValue
     (JArr [JObj [(''number'', JStr ''+41 44 123 45 67''), (''countryCode'', JStr ''CH''),
                  (''callingCode'', JStr ''+41'')],
            JStr ''+41 44 987 65 43''])
     = Some (JObj [(''primaryPhoneNumber'', JStr ''+41 44 123 45 67''),
                   (''primaryPhoneCallingCode'', JStr ''+41''),
                   (''primaryPhoneCountryCode'', JStr ''CH''),
                   (''additionalPhones'',
                    JArr [JObj [(''number'', JStr ''+41 44 987 65 43''),
                                (''countryCode'', JStr []), (''callingCode'', JStr [])]])])"
  by (simp add: normalizePhonesValue_def phone_entry_def field_or_def)

lemma test_address_string:
  "normalizeAddressValue (JStr ''Gotthardstrasse 63, 6438 Ibach'')
     = Some (JObj [(''addressStreet1'', JStr ''Gotthardstrasse 63, 6438 Ibach''),
                   (''addressStreet2'', JStr []), (''addressCity'', JStr []),
                   (''addressState'', JStr []), (''addressPostcode'', JStr []),
                   (''addressCountry'', JStr []), (''addressLat'', JNull),
                   (''addressLng'', JNull)])"
  by (simp add: normalizeAddressValue_def)

lemma test_address_standard:
  "normalizeAddressValue
     (JObj [(''street1'', JStr ''Gotthardstrasse 63''), (''city'', JStr ''Ibach''),
            (''postalCode'', JStr ''6438''), (''country'', JStr ''Switzerland'')])
     = Some (JObj [(''addressStreet1'', JStr ''Gotthardstrasse 63''),
                   (''addressStreet2'', JStr []), (''addressCity'', JStr ''Ibach''),
                   (''addressState'', JStr []), (''addressPostcode'', JStr ''6438''),
                   (''addressCountry'', JStr ''Switzerland''), (''addressLat'', JNull),
                   (''addressLng'', JNull)])"
  by (simp add: normalizeAddressValue_def address_object_def has_key_def field_or_def)

lemma test_address_lines:
  "normalizeAddressValue
     (JObj [(''addressLine1'', JStr ''Bahnhofstrasse 27''),
            (''addressLine2'', JStr ''c/o Aukofer''),
            (''city'', JStr (''M'' @ [CHR 0xC3, CHR 0xB6] @ ''hlin'')), (''state'', JStr ''AG''),
            (''zip'', JStr ''4313''), (''country'', JStr ''Schweiz'')])
     = Some (JObj [(''addressStreet1'', JStr ''Bahnhofstrasse 27''),
                   (''addressStreet2'', JStr ''c/o Aukofer''),
                   (''addressCity'', JStr (''M'' @ [CHR 0xC3, CHR 0xB6] @ ''hlin'')),
                   (''addressState'', JStr ''AG''), (''addressPostcode'', JStr ''4313''),
                   (''addressCountry'', JStr ''Schweiz''), (''addressLat'', JNull),
                   (''addressLng'', JNull)])"
  by (simp add: normalizeAddressValue_def address_object_def has_key_def field_or_def)

lemma test_links_string:
  "normalizeLinksValue (JStr ''https://schweglerbeck.ch'')
     = Some (JObj [(''primaryLinkUrl'', JStr ''https://schweglerbeck.ch''),
                   (''primaryLinkLabel'', JStr []), (''secondaryLinks'', JNull)])"
  by (simp add: normalizeLinksValue_def)

text \<open>A value of the structured shape is returned as it is.\<close>

lemma emails_structured:
  "has_key ''primaryEmail'' v \<Longrightarrow> normalizeEmailsValue a v = Some v"
  by (cases v) (simp_all add: normalizeEmailsValue_def has_key_def)

lemma phones_structured:
  "has_key ''primaryPhoneNumber'' v \<Longrightarrow> normalizePhonesValue v = Some v"
  by (cases v) (simp_all add: normalizePhonesValue_def has_key_def)

lemma address_structured:
  "has_key ''addressStreet1'' v \<Longrightarrow> normalizeAddressValue v = Some v"
  by (cases v) (simp_all add: normalizeAddressValue_def has_key_def)

lemma links_structured:
  "has_key ''primaryLinkUrl'' v \<Longrightarrow> normalizeLinksValue v = Some v"
  by (cases v) (simp_all add: normalizeLinksValue_def has_key_def)

text \<open>Every result is of the structured shape.\<close>

lemma emails_result:
  "normalizeEmailsValue a v = Some r \<Longrightarrow> has_key ''primaryEmail'' r"
proof (cases v)
  case (JArr es)
  assume "normalizeEmailsValue a v = Some r"
  with JArr show ?thesis
    by (cases es)
       (auto simp: normalizeEmailsValue_def has_key_def split: option.splits)
qed (auto simp: normalizeEmailsValue_def has_key_def split: if_splits)

lemma phones_result:
  "normalizePhonesValue v = Some r \<Longrightarrow> has_key ''primaryPhoneNumber'' r"
proof (cases v)
  case (JArr es)
  assume "normalizePhonesValue v = Some r"
  with JArr show ?thesis
    by (cases es)
       (auto simp: normalizePhonesValue_def has_key_def split: option.splits)
qed (auto simp: normalizePhonesValue_def has_key_def split: if_splits)

lemma address_result:
  "normalizeAddressValue v = Some r \<Longrightarrow> has_key ''addressStreet1'' r"
  by (cases v)
     (auto simp: normalizeAddressValue_def address_object_def has_key_def Let_def
        split: if_splits)

lemma links_result:
  "normalizeLinksValue v = Some r \<Longrightarrow> has_key ''primaryLinkUrl'' r"
proof (cases v)
  case (JArr es)
  assume "normalizeLinksValue v = Some r"
  with JArr show ?thesis
    by (cases es)
       (auto simp: normalizeLinksValue_def has_key_def split: option.splits)
qed (auto simp: normalizeLinksValue_def has_key_def split: if_splits)

text \<open>
  C7. Each of the four normalization functions is idempotent: normalizing the result
  of a normalization gives that result again. A value that has the key of the
  structured shape (\<open>primaryEmail\<close>, \<open>primaryPhoneNumber\<close>, \<open>addressStreet1\<close>,
  \<open>primaryLinkUrl\<close>) is returned unchanged.
\<close>

theorem normalization_idempotent:
  "(normalizeEmailsValue a v = Some r \<longrightarrow> normalizeEmailsValue a r = Some r) \<and>
   (normalizePhonesValue v = Some r \<longrightarrow> normalizePhonesValue r = Some r) \<and>
   (normalizeAddressValue v = Some r \<longrightarrow> normalizeAddressValue r = Some r) \<and>
   (normalizeLinksValue v = Some r \<longrightarrow> normalizeLinksValue r = Some r) \<and>
   (has_key ''primaryEmail'' v \<longrightarrow> normalizeEmailsValue a v = Some v) \<and>
   (has_key ''primaryPhoneNumber'' v \<longrightarrow> normalizePhonesValue v = Some v) \<and>
   (has_key ''addressStreet1'' v \<longrightarrow> normalizeAddressValue v = Some v) \<and>
   (has_key ''primaryLinkUrl'' v \<longrightarrow> normalizeLinksValue v = Some v)"
  using emails_result [of a v r] phones_result [of v r] address_result [of v r]
    links_result [of v r]
  by (simp add: emails_structured phones_structured address_structured links_structured)

theorem normalization_idempotent_witness:
  "normalizeEmailsValue (\<lambda>kvs. field_or kvs ''value'' JNull)
     (JObj [(''primaryEmail'', JStr ''test@example.com''), (''additionalEmails'', JNull)])
     = Some (JObj [(''primaryEmail'', JStr ''test@example.com''),
                   (''additionalEmails'', JNull)]) \<and>
   normalizePhonesValue
     (JObj [(''primaryPhoneNumber'', JStr ''+41 44 123 45 67''),
            (''primaryPhoneCallingCode'', JStr []),
            (''primaryPhoneCountryCode'', JStr []), (''additionalPhones'', JNull)])
     = Some (JObj [(''primaryPhoneNumber'', JStr ''+41 44 123 45 67''),
                   (''primaryPhoneCallingCode'', JStr []),
                   (''primaryPhoneCountryCode'', JStr []), (''additionalPhones'', JNull)]) \<and>
   normalizeAddressValue
     (JObj [(''addressStreet1'', JStr ''Gotthardstrasse 63''), (''addressStreet2'', JStr []),
            (''addressCity'', JStr ''Ibach''), (''addressState'', JStr ''Schwyz''),
            (''addressPostcode'', JStr ''6438''), (''addressCountry'', JStr ''Switzerland''),
            (''addressLat'', JNull), (''addressLng'', JNull)])
     = Some (JObj [(''addressStreet1'', JStr ''Gotthardstrasse 63''),
                   (''addressStreet2'', JStr []), (''addressCity'', JStr ''Ibach''),
                   (''addressState'', JStr ''Schwyz''), (''addressPostcode'', JStr ''6438''),
                   (''addressCountry'', JStr ''Switzerland''), (''addressLat'', JNull),
                   (''addressLng'', JNull)]) \<and>
   normalizeLinksValue
     (JObj [(''primaryLinkUrl'', JStr ''https://schweglerbeck.ch''),
            (''primaryLinkLabel'', JStr ''Website''), (''secondaryLinks'', JNull)])
     = Some (JObj [(''primaryLinkUrl'', JStr ''https://schweglerbeck.ch''),
                   (''primaryLinkLabel'', JStr ''Website''), (''secondaryLinks'', JNull)])"
proof -
  have emails: "normalizeEmailsValue (\<lambda>kvs. field_or kvs ''value'' JNull)
     (JObj [(''primaryEmail'', JStr ''test@example.com''), (''additionalEmails'', JNull)])
     = Some (JObj [(''primaryEmail'', JStr ''test@example.com''),
                   (''additionalEmails'', JNull)])"
    using normalization_idempotent
      [where a = "\<lambda>kvs. field_or kvs ''value'' JNull" and v = "JStr ''test@example.com''"
         and r = "JObj [(''primaryEmail'', JStr ''test@example.com''),
                        (''additionalEmails'', JNull)]", THEN conjunct1]
      test_email_string
    by simp
  have phones: "normalizePhonesValue
     (JObj [(''primaryPhoneNumber'', JStr ''+41 44 123 45 67''),
            (''primaryPhoneCallingCode'', JStr []),
            (''primaryPhoneCountryCode'', JStr []), (''additionalPhones'', JNull)])
     = Some (JObj [(''primaryPhoneNumber'', JStr ''+41 44 123 45 67''),
                   (''primaryPhoneCallingCode'', JStr []),
                   (''primaryPhoneCountryCode'', JStr []), (''additionalPhones'', JNull)])"
    using normalization_idempotent
      [where v = "JStr ''+41 44 123 45 67''"
         and r = "JObj [(''primaryPhoneNumber'', JStr ''+41 44 123 45 67''),
                        (''primaryPhoneCallingCode'', JStr []),
                        (''primaryPhoneCountryCode'', JStr []), (''additionalPhones'', JNull)]",
       THEN conjunct2, THEN conjunct1]
      test_phone_string
    by simp
  have address: "normalizeAddressValue
     (JObj [(''addressStreet1'', JStr ''Gotthardstrasse 63''), (''addressStreet2'', JStr []),
            (''addressCity'', JStr ''Ibach''), (''addressState'', JStr ''Schwyz''),
            (''addressPostcode'', JStr ''6438''), (''addressCountry'', JStr ''Switzerland''),
            (''addressLat'', JNull), (''addressLng'', JNull)])
     = Some (JObj [(''addressStreet1'', JStr ''Gotthardstrasse 63''),
                   (''addressStreet2'', JStr []), (''addressCity'', JStr ''Ibach''),
                   (''addressState'', JStr ''Schwyz''), (''addressPostcode'', JStr ''6438''),
                   (''addressCountry'', JStr ''Switzerland''), (''addressLat'', JNull),
                   (''addressLng'', JNull)])"
    using normalization_idempotent
      [where v = "JObj [(''addressStreet1'', JStr ''Gotthardstrasse 63''),
                        (''addressStreet2'', JStr []), (''addressCity'', JStr ''Ibach''),
                        (''addressState'', JStr ''Schwyz''),
                        (''addressPostcode'', JStr ''6438''),
                        (''addressCountry'', JStr ''Switzerland''), (''addressLat'', JNull),
                        (''addressLng'', JNull)]",
       THEN conjunct2, THEN conjunct2, THEN conjunct2, THEN conjunct2, THEN conjunct2,
       THEN conjunct2, THEN conjunct1]
    by (simp add: has_key_def)
  have links: "normalizeLinksValue
     (JObj [(''primaryLinkUrl'', JStr ''https://schweglerbeck.ch''),
            (''primaryLinkLabel'', JStr ''Website''), (''secondaryLinks'', JNull)])
     = Some (JObj [(''primaryLinkUrl'', JStr ''https://schweglerbeck.ch''),
                   (''primaryLinkLabel'', JStr ''Website''), (''secondaryLinks'', JNull)])"
    using normalization_idempotent
      [where v = "JObj [(''primaryLinkUrl'', JStr ''https://schweglerbeck.ch''),
                        (''primaryLinkLabel'', JStr ''Website''), (''secondaryLinks'', JNull)]",
       THEN conjunct2, THEN conjunct2, THEN conjunct2, THEN conjunct2, THEN conjunct2,
       THEN conjunct2, THEN conjunct2]
    by (simp add: has_key_def)
  from emails phones address links show ?thesis
    by (intro conjI)
qed

end
